theory Spec2Isabelle
  imports Main "HOL-Library.Word" "HOL-Library.AList"
begin

unbundle bit_operations_syntax

section \<open>The transcript chaincode (chaincodeTranscript/transcript.go)\<close>

text \<open>
  A shallow embedding of the smart contract of \<^verbatim>\<open>transcript.go\<close>: the record types, the
  canonical hashing of a record (\<^verbatim>\<open>StructToString\<close>, \<^verbatim>\<open>StringToMD5\<close>), the insert
  operations, the selector queries over the meta entries, and the transcript join.

  Go strings are byte sequences: \<^typ>\<open>string\<close>. Go's \<^verbatim>\<open>int\<close> is \<^typ>\<open>int\<close>: the contract does
  no arithmetic on it, it only prints it. A \<^verbatim>\<open>float32\<close> is its IEEE-754 bit pattern, a
  \<^typ>\<open>32 word\<close>; how \<^verbatim>\<open>fmt.Sprintf("%v", ...)\<close> prints one is not part of this repository and not
  modelled: every function that hashes a \<^verbatim>\<open>TakenCourse\<close> takes that rendering as its first
  argument \<open>fv\<close>.
\<close>

subsection \<open>Data structures\<close>

type_synonym float32 = "32 word"

record StudentInfo =
  Faculty :: string
  Department :: string
  StudentID :: int
  StudentSurname :: string
  StudentName :: string
  NationalID :: string
  RegistrationDate :: string
  RegistrationType :: string
  ProgramType :: string
  Class :: int
  StudentSemester :: int
  HashValue :: string

record TakenCourse =
  StudentID :: int
  CourseCode :: string
  Grade :: string
  Point :: float32
  TakenSemester :: int
  HashValue :: string

record CourseInfo =
  CourseCode :: string
  CourseName :: string
  CourseType :: string
  ECTS :: int
  Credit :: int
  HashValue :: string

record MetaInfo =
  Owner :: string
  StudentID :: string
  Relation :: string
  HashValue :: string

record CombinedCourseRecords =
  CourseCode :: string
  CourseName :: string
  CourseType :: string
  ECTS :: int
  Credit :: int
  Grade :: string
  Point :: float32
  TakenSemester :: int

record StudentTranscript =
  InfoStudent :: StudentInfo
  Courses :: "CombinedCourseRecords list"

subsection \<open>Printing integers: \<^verbatim>\<open>strconv.Itoa\<close> and \<^verbatim>\<open>%v\<close> of an int\<close>

definition digit_char :: "nat \<Rightarrow> char" where
  "digit_char d = ''0123456789'' ! d"

function digits10 :: "nat \<Rightarrow> string" where
  "digits10 n = (if n < 10 then [digit_char n] else digits10 (n div 10) @ [digit_char (n mod 10)])"
  by pat_completeness auto
termination
  by (relation "measure id") auto

declare digits10.simps [simp del]

definition Itoa :: "int \<Rightarrow> string" where
  "Itoa i = (if i < 0 then CHR ''-'' # digits10 (nat (- i)) else digits10 (nat i))"

subsection \<open>MD5 (RFC 1321), which \<^verbatim>\<open>crypto/md5\<close> implements\<close>

text \<open>
  32-bit words are natural numbers below \<open>2 ^ 32\<close>, with the wrap-around of the addition and
  of the rotation written out. Each table row is one step of a round: the index of the
  message word, the rotation, and the additive constant.
\<close>

definition add32 :: "nat \<Rightarrow> nat \<Rightarrow> nat" where
  "add32 x y = (x + y) mod 4294967296"

definition not32 :: "nat \<Rightarrow> nat" where
  "not32 x = 4294967295 - x"

definition rotl32 :: "nat \<Rightarrow> nat \<Rightarrow> nat" where
  "rotl32 x n = (x * 2 ^ n) mod 4294967296 + x div 2 ^ (32 - n)"

definition md5_table1 :: "(nat \<times> nat \<times> nat) list" where
  "md5_table1 = [(0, 7, 0xd76aa478), (1, 12, 0xe8c7b756), (2, 17, 0x242070db), (3, 22, 0xc1bdceee),
     (4, 7, 0xf57c0faf), (5, 12, 0x4787c62a), (6, 17, 0xa8304613), (7, 22, 0xfd469501),
     (8, 7, 0x698098d8), (9, 12, 0x8b44f7af), (10, 17, 0xffff5bb1), (11, 22, 0x895cd7be),
     (12, 7, 0x6b901122), (13, 12, 0xfd987193), (14, 17, 0xa679438e), (15, 22, 0x49b40821)]"

definition md5_table2 :: "(nat \<times> nat \<times> nat) list" where
  "md5_table2 = [(1, 5, 0xf61e2562), (6, 9, 0xc040b340), (11, 14, 0x265e5a51), (0, 20, 0xe9b6c7aa),
     (5, 5, 0xd62f105d), (10, 9, 0x02441453), (15, 14, 0xd8a1e681), (4, 20, 0xe7d3fbc8),
     (9, 5, 0x21e1cde6), (14, 9, 0xc33707d6), (3, 14, 0xf4d50d87), (8, 20, 0x455a14ed),
     (13, 5, 0xa9e3e905), (2, 9, 0xfcefa3f8), (7, 14, 0x676f02d9), (12, 20, 0x8d2a4c8a)]"

definition md5_table3 :: "(nat \<times> nat \<times> nat) list" where
  "md5_table3 = [(5, 4, 0xfffa3942), (8, 11, 0x8771f681), (11, 16, 0x6d9d6122), (14, 23, 0xfde5380c),
     (1, 4, 0xa4beea44), (4, 11, 0x4bdecfa9), (7, 16, 0xf6bb4b60), (10, 23, 0xbebfbc70),
     (13, 4, 0x289b7ec6), (0, 11, 0xeaa127fa), (3, 16, 0xd4ef3085), (6, 23, 0x04881d05),
     (9, 4, 0xd9d4d039), (12, 11, 0xe6db99e5), (15, 16, 0x1fa27cf8), (2, 23, 0xc4ac5665)]"

definition md5_table4 :: "(nat \<times> nat \<times> nat) list" where
  "md5_table4 = [(0, 6, 0xf4292244), (7, 10, 0x432aff97), (14, 15, 0xab9423a7), (5, 21, 0xfc93a039),
     (12, 6, 0x655b59c3), (3, 10, 0x8f0ccc92), (10, 15, 0xffeff47d), (1, 21, 0x85845dd1),
     (8, 6, 0x6fa87e4f), (15, 10, 0xfe2ce6e0), (6, 15, 0xa3014314), (13, 21, 0x4e0811a1),
     (4, 6, 0xf7537e82), (11, 10, 0xbd3af235), (2, 15, 0x2ad7d2bb), (9, 21, 0xeb86d391)]"

definition md5_F :: "nat \<Rightarrow> nat \<Rightarrow> nat \<Rightarrow> nat" where
  "md5_F x y z = (x AND y) OR (not32 x AND z)"

definition md5_G :: "nat \<Rightarrow> nat \<Rightarrow> nat \<Rightarrow> nat" where
  "md5_G x y z = (x AND z) OR (y AND not32 z)"

definition md5_H :: "nat \<Rightarrow> nat \<Rightarrow> nat \<Rightarrow> nat" where
  "md5_H x y z = x XOR y XOR z"

definition md5_I :: "nat \<Rightarrow> nat \<Rightarrow> nat \<Rightarrow> nat" where
  "md5_I x y z = y XOR (x OR not32 z)"

type_synonym md5_state = "nat \<times> nat \<times> nat \<times> nat"

fun md5_step ::
  "(nat \<Rightarrow> nat \<Rightarrow> nat \<Rightarrow> nat) \<Rightarrow> nat list \<Rightarrow> md5_state \<Rightarrow> nat \<times> nat \<times> nat \<Rightarrow> md5_state" where
  "md5_step f M (a, b, c, d) (k, s, t) =
     (d, add32 b (rotl32 (add32 (add32 (add32 a (f b c d)) (M ! k)) t) s), b, c)"

definition md5_block :: "md5_state \<Rightarrow> nat list \<Rightarrow> md5_state" where
  "md5_block st M =
     (case st of (a0, b0, c0, d0) \<Rightarrow>
      (case foldl (md5_step md5_I M) (foldl (md5_step md5_H M) (foldl (md5_step md5_G M)
              (foldl (md5_step md5_F M) st md5_table1) md5_table2) md5_table3) md5_table4
       of (a, b, c, d) \<Rightarrow> (add32 a0 a, add32 b0 b, add32 c0 c, add32 d0 d)))"

fun le_words :: "nat list \<Rightarrow> nat list" where
  "le_words (b0 # b1 # b2 # b3 # bs) =
     (b0 + 256 * b1 + 65536 * b2 + 16777216 * b3) # le_words bs"
| "le_words bs = []"

definition md5_pad :: "nat list \<Rightarrow> nat list" where
  "md5_pad bs =
     (let n = length bs; bits = 8 * n in
      bs @ [128] @ replicate ((119 - n mod 64) mod 64) 0 @
      map (\<lambda>i. (bits div 256 ^ i) mod 256) [0, 1, 2, 3, 4, 5, 6, 7])"

fun md5_blocks :: "md5_state \<Rightarrow> nat list \<Rightarrow> md5_state" where
  "md5_blocks st (w0 # w1 # w2 # w3 # w4 # w5 # w6 # w7 # w8 # w9 # w10 # w11 # w12 # w13 # w14 # w15 # ws) =
     md5_blocks (md5_block st [w0, w1, w2, w3, w4, w5, w6, w7, w8, w9, w10, w11, w12, w13, w14, w15]) ws"
| "md5_blocks st ws = st"

definition le_bytes :: "nat \<Rightarrow> nat list" where
  "le_bytes w = map (\<lambda>i. (w div 256 ^ i) mod 256) [0, 1, 2, 3]"

definition md5_sum :: "nat list \<Rightarrow> nat list" where
  "md5_sum bs =
     (case md5_blocks (0x67452301, 0xefcdab89, 0x98badcfe, 0x10325476) (le_words (md5_pad bs))
      of (a, b, c, d) \<Rightarrow> concat (map le_bytes [a, b, c, d]))"

text \<open>\<^verbatim>\<open>hex.EncodeToString\<close>: two lower-case digits for each byte.\<close>

definition hex_digit :: "nat \<Rightarrow> char" where
  "hex_digit n = ''0123456789abcdef'' ! n"

definition EncodeToString :: "nat list \<Rightarrow> string" where
  "EncodeToString bs = concat (map (\<lambda>b. [hex_digit (b div 16), hex_digit (b mod 16)]) bs)"

definition StringToMD5 :: "string \<Rightarrow> string" where
  "StringToMD5 v = EncodeToString (md5_sum (map of_char v))"

subsection \<open>The canonical string of a record: \<^verbatim>\<open>StructToString\<close>, \<^verbatim>\<open>StructToMD5\<close>\<close>

text \<open>
  \<^verbatim>\<open>StructToString\<close> takes an \<^verbatim>\<open>interface{}\<close> and reads the struct by reflection. The contract
  passes it values of three types, which \<open>struct\<close> lists. \<open>reflect_fields\<close> is what the
  reflection loop sees: the fields in declaration order, each with its name and the text
  \<^verbatim>\<open>fmt.Sprintf("%v", value)\<close> prints for it.
\<close>

datatype struct = SI StudentInfo | TC TakenCourse | CI CourseInfo

fun reflect_fields :: "(float32 \<Rightarrow> string) \<Rightarrow> struct \<Rightarrow> (string \<times> string) list" where
  "reflect_fields fv (SI s) =
     [(''Faculty'', Faculty s), (''Department'', Department s),
      (''StudentID'', Itoa (StudentInfo.StudentID s)), (''StudentSurname'', StudentSurname s),
      (''StudentName'', StudentName s), (''NationalID'', NationalID s),
      (''RegistrationDate'', RegistrationDate s), (''RegistrationType'', RegistrationType s),
      (''ProgramType'', ProgramType s), (''Class'', Itoa (Class s)),
      (''StudentSemester'', Itoa (StudentSemester s)), (''HashValue'', StudentInfo.HashValue s)]"
| "reflect_fields fv (TC t) =
     [(''StudentID'', Itoa (TakenCourse.StudentID t)), (''CourseCode'', TakenCourse.CourseCode t),
      (''Grade'', TakenCourse.Grade t), (''Point'', fv (TakenCourse.Point t)),
      (''TakenSemester'', Itoa (TakenCourse.TakenSemester t)), (''HashValue'', TakenCourse.HashValue t)]"
| "reflect_fields fv (CI c) =
     [(''CourseCode'', CourseInfo.CourseCode c), (''CourseName'', CourseInfo.CourseName c),
      (''CourseType'', CourseInfo.CourseType c), (''ECTS'', Itoa (CourseInfo.ECTS c)),
      (''Credit'', Itoa (CourseInfo.Credit c)), (''HashValue'', CourseInfo.HashValue c)]"

text \<open>\<^verbatim>\<open>strings.Join\<close>.\<close>

fun Join :: "string list \<Rightarrow> string \<Rightarrow> string" where
  "Join [] sep = []"
| "Join [x] sep = x"
| "Join (x # y # ys) sep = x @ sep @ Join (y # ys) sep"

text \<open>
  The loop leaves a slot of \<open>mySlice\<close> empty for a field named \<^verbatim>\<open>HashCode\<close>; the joined
  string then loses its last byte (\<^verbatim>\<open>result[:len(result)-1]\<close>). The joined string of a
  struct with two fields or more holds a comma, so the slice expression never panics
  on the three types of \<open>struct\<close>.
\<close>

definition StructToString :: "(float32 \<Rightarrow> string) \<Rightarrow> struct \<Rightarrow> string" where
  "StructToString fv incomingStruct =
     (let mySlice = map (\<lambda>(fieldType, stringData). if fieldType \<noteq> ''HashCode'' then stringData else [])
                        (reflect_fields fv incomingStruct);
          result = Join mySlice '',''
      in take (length result - 1) result)"

definition StructToMD5 :: "(float32 \<Rightarrow> string) \<Rightarrow> struct \<Rightarrow> string" where
  "StructToMD5 fv incomingStruct = StringToMD5 (StructToString fv incomingStruct)"

subsection \<open>Errors\<close>

text \<open>
  The contract reports failures as \<^verbatim>\<open>fmt.Errorf\<close> values that wrap the error they come from.
  The first constructors are what the libraries report; the others stand for the contract's
  messages, in the order they appear in the source; \<open>NilDereference\<close> is the panic of
  \<^verbatim>\<open>*infoStudent\<close> on a nil pointer.
\<close>

datatype error =
    UnsupportedValue
  | UnmarshalTypeError
  | EmptyKey
  | InvalidKeyAttribute
  | MarshalFailed error
  | PutStateFailed error
  | CompositeKeyFailed error
  | ReadFailed error
  | RecordExists
  | Rethrown error
  | NoRecordFound
  | IterateFailed error
  | UnmarshalFailed error
  | NoRecordWithHash string
  | FetchFailed error
  | TranscriptFailed error
  | NilDereference

subsection \<open>UTF-8, as \<^verbatim>\<open>unicode/utf8\<close> reads it\<close>

definition is_cont :: "nat \<Rightarrow> bool" where
  "is_cont b = (128 \<le> b \<and> b \<le> 191)"

text \<open>The number of bytes of the well-formed encoding at the head of a string, 0 when
  the head is not one (\<^verbatim>\<open>DecodeRuneInString\<close> then returns \<^verbatim>\<open>RuneError\<close> with size 1).\<close>

fun rune_size :: "string \<Rightarrow> nat" where
  "rune_size [] = 0"
| "rune_size (c # cs) =
     (let b0 = (of_char c :: nat); bs = map of_char cs in
      if b0 < 128 then 1
      else if 194 \<le> b0 \<and> b0 \<le> 223 then
        (case bs of b1 # _ \<Rightarrow> if is_cont b1 then 2 else 0 | _ \<Rightarrow> 0)
      else if 224 \<le> b0 \<and> b0 \<le> 239 then
        (case bs of b1 # b2 # _ \<Rightarrow>
           if (if b0 = 224 then 160 else 128) \<le> b1 \<and> b1 \<le> (if b0 = 237 then 159 else 191)
              \<and> is_cont b2 then 3 else 0
         | _ \<Rightarrow> 0)
      else if 240 \<le> b0 \<and> b0 \<le> 244 then
        (case bs of b1 # b2 # b3 # _ \<Rightarrow>
           if (if b0 = 240 then 144 else 128) \<le> b1 \<and> b1 \<le> (if b0 = 244 then 143 else 191)
              \<and> is_cont b2 \<and> is_cont b3 then 4 else 0
         | _ \<Rightarrow> 0)
      else 0)"

text \<open>\<^verbatim>\<open>utf8.ValidString\<close>.\<close>

function ValidString :: "string \<Rightarrow> bool" where
  "ValidString [] = True"
| "ValidString (c # cs) =
     (if rune_size (c # cs) = 0 then False else ValidString (drop (rune_size (c # cs)) (c # cs)))"
  by pat_completeness auto
termination
  by (relation "measure length") auto

text \<open>
  What a Go string is after \<^verbatim>\<open>json.Marshal\<close> and \<^verbatim>\<open>json.Unmarshal\<close>: the encoder writes
  U+FFFD for every byte that does not start a well-formed encoding, and every other rune
  comes back as it was.
\<close>

function json_string :: "string \<Rightarrow> string" where
  "json_string [] = []"
| "json_string (c # cs) =
     (if rune_size (c # cs) = 0 then [CHR 0xEF, CHR 0xBF, CHR 0xBD] @ json_string cs
      else take (rune_size (c # cs)) (c # cs) @ json_string (drop (rune_size (c # cs)) (c # cs)))"
  by pat_completeness auto
termination
  by (relation "measure length") auto

subsection \<open>JSON documents\<close>

text \<open>
  The world state of the chaincode holds what the chaincode wrote: the JSON encoding of a
  value of one of its four struct types. A document is that value as the decoder reads it
  back.  \<^verbatim>\<open>json.Marshal\<close> refuses a float that is NaN or infinite (all exponent bits set).
\<close>

datatype document =
    StudentInfoJSON StudentInfo
  | TakenCourseJSON TakenCourse
  | CourseInfoJSON CourseInfo
  | MetaInfoJSON MetaInfo

definition is_NaN_or_Inf :: "float32 \<Rightarrow> bool" where
  "is_NaN_or_Inf f = (f AND 0x7F800000 = 0x7F800000)"

definition Marshal_StudentInfo :: "StudentInfo \<Rightarrow> error + document" where
  "Marshal_StudentInfo s = Inr (StudentInfoJSON
     \<lparr>StudentInfo.Faculty = json_string (Faculty s), StudentInfo.Department = json_string (Department s),
      StudentInfo.StudentID = StudentInfo.StudentID s, StudentInfo.StudentSurname = json_string (StudentSurname s),
      StudentInfo.StudentName = json_string (StudentName s), StudentInfo.NationalID = json_string (NationalID s),
      StudentInfo.RegistrationDate = json_string (RegistrationDate s),
      StudentInfo.RegistrationType = json_string (RegistrationType s),
      StudentInfo.ProgramType = json_string (ProgramType s), StudentInfo.Class = Class s,
      StudentInfo.StudentSemester = StudentSemester s, StudentInfo.HashValue = json_string (StudentInfo.HashValue s)\<rparr>)"

definition Marshal_TakenCourse :: "TakenCourse \<Rightarrow> error + document" where
  "Marshal_TakenCourse t =
     (if is_NaN_or_Inf (TakenCourse.Point t) then Inl UnsupportedValue
      else Inr (TakenCourseJSON
        \<lparr>TakenCourse.StudentID = TakenCourse.StudentID t, TakenCourse.CourseCode = json_string (TakenCourse.CourseCode t),
         TakenCourse.Grade = json_string (TakenCourse.Grade t), TakenCourse.Point = TakenCourse.Point t,
         TakenCourse.TakenSemester = TakenCourse.TakenSemester t,
         TakenCourse.HashValue = json_string (TakenCourse.HashValue t)\<rparr>))"

definition Marshal_CourseInfo :: "CourseInfo \<Rightarrow> error + document" where
  "Marshal_CourseInfo c = Inr (CourseInfoJSON
     \<lparr>CourseInfo.CourseCode = json_string (CourseInfo.CourseCode c),
      CourseInfo.CourseName = json_string (CourseInfo.CourseName c),
      CourseInfo.CourseType = json_string (CourseInfo.CourseType c), CourseInfo.ECTS = CourseInfo.ECTS c,
      CourseInfo.Credit = CourseInfo.Credit c, CourseInfo.HashValue = json_string (CourseInfo.HashValue c)\<rparr>)"

definition Marshal_MetaInfo :: "MetaInfo \<Rightarrow> error + document" where
  "Marshal_MetaInfo m = Inr (MetaInfoJSON
     \<lparr>MetaInfo.Owner = json_string (Owner m), MetaInfo.StudentID = json_string (MetaInfo.StudentID m),
      MetaInfo.Relation = json_string (Relation m), MetaInfo.HashValue = json_string (MetaInfo.HashValue m)\<rparr>)"

text \<open>
  \<^verbatim>\<open>json.Unmarshal\<close> into a struct fills the fields whose JSON names the document has and
  leaves the others zero; it fails where a name is shared and the types differ, which
  among the four types is \<^verbatim>\<open>student_id\<close>: a number in the data records, a string in
  \<^verbatim>\<open>MetaInfo\<close>.
\<close>

definition zero_StudentInfo :: StudentInfo where
  "zero_StudentInfo = \<lparr>StudentInfo.Faculty = [], StudentInfo.Department = [], StudentInfo.StudentID = 0, StudentInfo.StudentSurname = [],
     StudentInfo.StudentName = [], StudentInfo.NationalID = [], StudentInfo.RegistrationDate = [], StudentInfo.RegistrationType = [],
     StudentInfo.ProgramType = [], StudentInfo.Class = 0, StudentInfo.StudentSemester = 0, StudentInfo.HashValue = []\<rparr>"

definition zero_TakenCourse :: TakenCourse where
  "zero_TakenCourse = \<lparr>TakenCourse.StudentID = 0, TakenCourse.CourseCode = [], TakenCourse.Grade = [], TakenCourse.Point = 0,
     TakenCourse.TakenSemester = 0, TakenCourse.HashValue = []\<rparr>"

definition zero_CourseInfo :: CourseInfo where
  "zero_CourseInfo = \<lparr>CourseInfo.CourseCode = [], CourseInfo.CourseName = [], CourseInfo.CourseType = [], CourseInfo.ECTS = 0, CourseInfo.Credit = 0,
     CourseInfo.HashValue = []\<rparr>"

definition zero_MetaInfo :: MetaInfo where
  "zero_MetaInfo = \<lparr>MetaInfo.Owner = [], MetaInfo.StudentID = [], MetaInfo.Relation = [], MetaInfo.HashValue = []\<rparr>"

fun Unmarshal_StudentInfo :: "document \<Rightarrow> error + StudentInfo" where
  "Unmarshal_StudentInfo (StudentInfoJSON s) = Inr s"
| "Unmarshal_StudentInfo (TakenCourseJSON t) =
     Inr (zero_StudentInfo\<lparr>StudentInfo.StudentID := TakenCourse.StudentID t,
                           StudentInfo.HashValue := TakenCourse.HashValue t\<rparr>)"
| "Unmarshal_StudentInfo (CourseInfoJSON c) =
     Inr (zero_StudentInfo\<lparr>StudentInfo.HashValue := CourseInfo.HashValue c\<rparr>)"
| "Unmarshal_StudentInfo (MetaInfoJSON m) = Inl UnmarshalTypeError"

fun Unmarshal_TakenCourse :: "document \<Rightarrow> error + TakenCourse" where
  "Unmarshal_TakenCourse (TakenCourseJSON t) = Inr t"
| "Unmarshal_TakenCourse (StudentInfoJSON s) =
     Inr (zero_TakenCourse\<lparr>TakenCourse.StudentID := StudentInfo.StudentID s,
                           TakenCourse.HashValue := StudentInfo.HashValue s\<rparr>)"
| "Unmarshal_TakenCourse (CourseInfoJSON c) =
     Inr (zero_TakenCourse\<lparr>TakenCourse.CourseCode := CourseInfo.CourseCode c,
                           TakenCourse.HashValue := CourseInfo.HashValue c\<rparr>)"
| "Unmarshal_TakenCourse (MetaInfoJSON m) = Inl UnmarshalTypeError"

fun Unmarshal_CourseInfo :: "document \<Rightarrow> error + CourseInfo" where
  "Unmarshal_CourseInfo (CourseInfoJSON c) = Inr c"
| "Unmarshal_CourseInfo (StudentInfoJSON s) =
     Inr (zero_CourseInfo\<lparr>CourseInfo.HashValue := StudentInfo.HashValue s\<rparr>)"
| "Unmarshal_CourseInfo (TakenCourseJSON t) =
     Inr (zero_CourseInfo\<lparr>CourseInfo.CourseCode := TakenCourse.CourseCode t,
                          CourseInfo.HashValue := TakenCourse.HashValue t\<rparr>)"
| "Unmarshal_CourseInfo (MetaInfoJSON m) =
     Inr (zero_CourseInfo\<lparr>CourseInfo.HashValue := MetaInfo.HashValue m\<rparr>)"

fun Unmarshal_MetaInfo :: "document \<Rightarrow> error + MetaInfo" where
  "Unmarshal_MetaInfo (MetaInfoJSON m) = Inr m"
| "Unmarshal_MetaInfo (StudentInfoJSON s) = Inl UnmarshalTypeError"
| "Unmarshal_MetaInfo (TakenCourseJSON t) = Inl UnmarshalTypeError"
| "Unmarshal_MetaInfo (CourseInfoJSON c) =
     Inr (zero_MetaInfo\<lparr>MetaInfo.HashValue := CourseInfo.HashValue c\<rparr>)"

text \<open>The string-valued fields of a document, by their JSON names: what an equality
  selector with a string value can match.\<close>

fun string_field :: "document \<Rightarrow> string \<Rightarrow> string option" where
  "string_field (StudentInfoJSON s) f =
     map_of [(''faculty'', Faculty s), (''department'', Department s),
             (''student_surname'', StudentSurname s), (''student_name'', StudentName s),
             (''national_id'', NationalID s), (''registration_date'', RegistrationDate s),
             (''registration_type'', RegistrationType s), (''program_type'', ProgramType s),
             (''hash_value'', StudentInfo.HashValue s)] f"
| "string_field (TakenCourseJSON t) f =
     map_of [(''course_code'', TakenCourse.CourseCode t), (''grade'', TakenCourse.Grade t),
             (''hash_value'', TakenCourse.HashValue t)] f"
| "string_field (CourseInfoJSON c) f =
     map_of [(''course_code'', CourseInfo.CourseCode c), (''course_name'', CourseInfo.CourseName c),
             (''course_type'', CourseInfo.CourseType c), (''hash_value'', CourseInfo.HashValue c)] f"
| "string_field (MetaInfoJSON m) f =
     map_of [(''owner'', Owner m), (''student_id'', MetaInfo.StudentID m),
             (''relation'', Relation m), (''hash_value'', MetaInfo.HashValue m)] f"

subsection \<open>The world state and the chaincode stub\<close>

text \<open>
  The world state is the list of the keys written so far with their documents. The stub
  is the platform's (\<^verbatim>\<open>fabric-chaincode-go/shim\<close>), modelled from its documented behaviour
  with the backend available: \<^verbatim>\<open>GetState\<close> and \<^verbatim>\<open>GetQueryResult\<close> return no error,
  \<^verbatim>\<open>PutState\<close> refuses the empty key, \<^verbatim>\<open>CreateCompositeKey\<close> refuses an attribute that is not
  valid UTF-8 or holds U+0000 or U+10FFFF.

  A rich query is taken as the equalities its selector spells out
  (\<^verbatim>\<open>{"selector":{"owner":"%s", ...}}\<close>), each between a JSON field and a string; the
  quoting of the arguments inside the query text is outside the model. Its iterator
  yields the matching entries in the order of the world state's list.
\<close>

type_synonym world_state = "(string \<times> document) list"

type_synonym selector = "(string \<times> string) list"

definition GetState :: "world_state \<Rightarrow> string \<Rightarrow> error + document option" where
  "GetState st key = Inr (map_of st key)"

definition PutState :: "world_state \<Rightarrow> string \<Rightarrow> document \<Rightarrow> error + world_state" where
  "PutState st key v = (if key = [] then Inl EmptyKey else Inr (AList.update key v st))"

definition matches :: "selector \<Rightarrow> document \<Rightarrow> bool" where
  "matches sel d = list_all (\<lambda>(f, v). string_field d f = Some v) sel"

definition GetQueryResult :: "world_state \<Rightarrow> selector \<Rightarrow> error + (string \<times> document) list" where
  "GetQueryResult st sel = Inr (filter (\<lambda>(key, d). matches sel d) st)"

function no_reserved_rune :: "string \<Rightarrow> bool" where
  "no_reserved_rune [] = True"
| "no_reserved_rune (c # cs) =
     (if take (rune_size (c # cs)) (c # cs) = [CHR 0x00]
         \<or> take (rune_size (c # cs)) (c # cs) = [CHR 0xF4, CHR 0x8F, CHR 0xBF, CHR 0xBF]
      then False
      else no_reserved_rune (drop (max 1 (rune_size (c # cs))) (c # cs)))"
  by pat_completeness auto
termination
  by (relation "measure length") auto

definition validateCompositeKeyAttribute :: "string \<Rightarrow> bool" where
  "validateCompositeKeyAttribute str = (ValidString str \<and> no_reserved_rune str)"

definition CreateCompositeKey :: "string \<Rightarrow> string list \<Rightarrow> error + string" where
  "CreateCompositeKey objectType attributes =
     (if list_all validateCompositeKeyAttribute (objectType # attributes)
      then Inr (CHR 0x00 # objectType @ [CHR 0x00] @ concat (map (\<lambda>att. att @ [CHR 0x00]) attributes))
      else Inl InvalidKeyAttribute)"

subsection \<open>Existence of a record\<close>

definition IsRecordExists :: "world_state \<Rightarrow> string \<Rightarrow> string \<Rightarrow> string \<Rightarrow> bool \<times> error option" where
  "IsRecordExists st Owner' StudentID' HashCode =
     (case GetQueryResult st [(''owner'', Owner'), (''student_id'', StudentID'), (''hash_value'', HashCode)] of
        Inl err \<Rightarrow> (True, Some (ReadFailed err))
      | Inr resultsIterator \<Rightarrow> if resultsIterator \<noteq> [] then (True, None) else (False, None))"

subsection \<open>Creating new records\<close>

text \<open>
  An insert returns Go's pair \<^verbatim>\<open>(bool, error)\<close> and the world state with the writes it
  issued before it returned.
\<close>

definition InsertNewRecordStudentInfo ::
  "(float32 \<Rightarrow> string) \<Rightarrow> world_state \<Rightarrow> string \<Rightarrow> string \<Rightarrow> string \<Rightarrow> int \<Rightarrow> string \<Rightarrow> string \<Rightarrow> string
   \<Rightarrow> string \<Rightarrow> string \<Rightarrow> string \<Rightarrow> int \<Rightarrow> int
   \<Rightarrow> (bool \<times> error option) \<times> world_state" where
  "InsertNewRecordStudentInfo fv st owner faculty department studentId surname name nationalid registrationdate registrationtype programtype class semester =
     (let student0 = \<lparr>StudentInfo.Faculty = faculty, StudentInfo.Department = department,
            StudentInfo.StudentID = studentId, StudentInfo.StudentSurname = surname,
            StudentInfo.StudentName = name, StudentInfo.NationalID = nationalid,
            StudentInfo.RegistrationDate = registrationdate,
            StudentInfo.RegistrationType = registrationtype,
            StudentInfo.ProgramType = programtype, StudentInfo.Class = class,
            StudentInfo.StudentSemester = semester, StudentInfo.HashValue = []\<rparr>;
          generatedHashValue = StructToMD5 fv (SI student0);
          student = student0\<lparr>StudentInfo.HashValue := generatedHashValue\<rparr>
      in case IsRecordExists st owner (Itoa studentId) generatedHashValue of
           (IsExist, Some err) \<Rightarrow> ((False, Some (Rethrown err)), st)
         | (IsExist, None) \<Rightarrow>
             if IsExist then ((False, Some RecordExists), st)
             else (case Marshal_StudentInfo student of
                Inl err \<Rightarrow> ((False, Some (MarshalFailed err)), st)
              | Inr jsonData \<Rightarrow>
                 (case PutState st (StudentInfo.HashValue student) jsonData of
                    Inl err \<Rightarrow> ((False, Some (PutStateFailed err)), st)
                  | Inr st1 \<Rightarrow>
                     (let meta = \<lparr>MetaInfo.Owner = owner, MetaInfo.StudentID = Itoa studentId,
                                  MetaInfo.Relation = ''StudentInfo'',
                                  MetaInfo.HashValue = generatedHashValue\<rparr>
                      in case CreateCompositeKey ''heiID''
                                [Owner meta, MetaInfo.StudentID meta, MetaInfo.HashValue meta] of
                           Inl err \<Rightarrow> ((False, Some (CompositeKeyFailed err)), st1)
                         | Inr compositeKey \<Rightarrow>
                            (case Marshal_MetaInfo meta of
                               Inl err \<Rightarrow> ((False, Some (MarshalFailed err)), st1)
                             | Inr jsonMeta \<Rightarrow>
                                (case PutState st1 compositeKey jsonMeta of
                                   Inl err \<Rightarrow> ((False, Some (PutStateFailed err)), st1)
                                 | Inr st2 \<Rightarrow> ((True, None), st2)))))))"

definition InsertNewRecordTakenCourse ::
  "(float32 \<Rightarrow> string) \<Rightarrow> world_state \<Rightarrow> string \<Rightarrow> int \<Rightarrow> string \<Rightarrow> string \<Rightarrow> float32 \<Rightarrow> int
   \<Rightarrow> (bool \<times> error option) \<times> world_state" where
  "InsertNewRecordTakenCourse fv st owner studentId courseCode grade point takenSemester =
     (let course0 = \<lparr>TakenCourse.StudentID = studentId, TakenCourse.CourseCode = courseCode,
            TakenCourse.Grade = grade, TakenCourse.Point = point,
            TakenCourse.TakenSemester = takenSemester, TakenCourse.HashValue = []\<rparr>;
          generatedHashValue = StructToMD5 fv (TC course0);
          course = course0\<lparr>TakenCourse.HashValue := generatedHashValue\<rparr>
      in case IsRecordExists st owner (Itoa studentId) generatedHashValue of
           (IsExist, Some err) \<Rightarrow> ((False, Some (Rethrown err)), st)
         | (IsExist, None) \<Rightarrow>
             if IsExist then ((False, Some RecordExists), st)
             else (case Marshal_TakenCourse course of
                Inl err \<Rightarrow> ((False, Some (MarshalFailed err)), st)
              | Inr jsonData \<Rightarrow>
                 (case PutState st (TakenCourse.HashValue course) jsonData of
                    Inl err \<Rightarrow> ((False, Some (PutStateFailed err)), st)
                  | Inr st1 \<Rightarrow>
                     (let meta = \<lparr>MetaInfo.Owner = owner, MetaInfo.StudentID = Itoa studentId,
                                  MetaInfo.Relation = ''TakenCourse'',
                                  MetaInfo.HashValue = generatedHashValue\<rparr>
                      in case CreateCompositeKey ''heiID''
                                [Owner meta, MetaInfo.StudentID meta, MetaInfo.HashValue meta] of
                           Inl err \<Rightarrow> ((False, Some (CompositeKeyFailed err)), st1)
                         | Inr compositeKey \<Rightarrow>
                            (case Marshal_MetaInfo meta of
                               Inl err \<Rightarrow> ((False, Some (MarshalFailed err)), st1)
                             | Inr jsonMeta \<Rightarrow>
                                (case PutState st1 compositeKey jsonMeta of
                                   Inl err \<Rightarrow> ((False, Some (PutStateFailed err)), st1)
                                 | Inr st2 \<Rightarrow> ((True, None), st2)))))))"

definition InsertNewRecordCourseInfo ::
  "(float32 \<Rightarrow> string) \<Rightarrow> world_state \<Rightarrow> string \<Rightarrow> int \<Rightarrow> string \<Rightarrow> string \<Rightarrow> string \<Rightarrow> int \<Rightarrow> int
   \<Rightarrow> (bool \<times> error option) \<times> world_state" where
  "InsertNewRecordCourseInfo fv st owner studentnumber courseCode courseName courseType ects credit =
     (let InfoCourse0 = \<lparr>CourseInfo.CourseCode = courseCode, CourseInfo.CourseName = courseName,
            CourseInfo.CourseType = courseType, CourseInfo.ECTS = ects,
            CourseInfo.Credit = credit, CourseInfo.HashValue = []\<rparr>;
          generatedHashValue = StructToMD5 fv (CI InfoCourse0);
          InfoCourse = InfoCourse0\<lparr>CourseInfo.HashValue := generatedHashValue\<rparr>
      in case IsRecordExists st owner (Itoa studentnumber) generatedHashValue of
           (IsExist, Some err) \<Rightarrow> ((False, Some (Rethrown err)), st)
         | (IsExist, None) \<Rightarrow>
             if IsExist then ((False, Some RecordExists), st)
             else (case Marshal_CourseInfo InfoCourse of
                Inl err \<Rightarrow> ((False, Some (MarshalFailed err)), st)
              | Inr jsonData \<Rightarrow>
                 (case PutState st (CourseInfo.HashValue InfoCourse) jsonData of
                    Inl err \<Rightarrow> ((False, Some (PutStateFailed err)), st)
                  | Inr st1 \<Rightarrow>
                     (let meta = \<lparr>MetaInfo.Owner = owner, MetaInfo.StudentID = Itoa studentnumber,
                                  MetaInfo.Relation = ''CourseInfo'',
                                  MetaInfo.HashValue = generatedHashValue\<rparr>
                      in case CreateCompositeKey ''heiID''
                                [Owner meta, MetaInfo.StudentID meta, MetaInfo.HashValue meta] of
                           Inl err \<Rightarrow> ((False, Some (CompositeKeyFailed err)), st1)
                         | Inr compositeKey \<Rightarrow>
                            (case Marshal_MetaInfo meta of
                               Inl err \<Rightarrow> ((False, Some (MarshalFailed err)), st1)
                             | Inr jsonMeta \<Rightarrow>
                                (case PutState st1 compositeKey jsonMeta of
                                   Inl err \<Rightarrow> ((False, Some (PutStateFailed err)), st1)
                                 | Inr st2 \<Rightarrow> ((True, None), st2)))))))"

subsection \<open>\<^verbatim>\<open>InitLedger\<close>\<close>

text \<open>
  Each of the three loops walks a slice of records and the slice of their meta entries by
  one index; the two slices of a loop have the same length. The points of the taken
  courses are the \<^verbatim>\<open>float32\<close> values of 20, 21, 6, 18.9, 8, 4, 6 and 8.
\<close>

fun InitLedger_Students ::
  "(float32 \<Rightarrow> string) \<Rightarrow> world_state \<Rightarrow> StudentInfo list \<Rightarrow> MetaInfo list
   \<Rightarrow> error option \<times> world_state" where
  "InitLedger_Students fv st (s # Students) (m # MetaStudents) =
     (let generatedHashValue = StructToMD5 fv (SI s);
          s' = s\<lparr>StudentInfo.HashValue := generatedHashValue\<rparr>;
          m' = m\<lparr>MetaInfo.HashValue := generatedHashValue\<rparr>
      in case Marshal_StudentInfo s' of
           Inl err \<Rightarrow> (Some (MarshalFailed err), st)
         | Inr infoJSON \<Rightarrow>
            (case PutState st (StudentInfo.HashValue s') infoJSON of
               Inl err \<Rightarrow> (Some (PutStateFailed err), st)
             | Inr st1 \<Rightarrow>
                (case CreateCompositeKey ''heiID''
                        [Owner m', MetaInfo.StudentID m', MetaInfo.HashValue m'] of
                   Inl err \<Rightarrow> (Some (CompositeKeyFailed err), st1)
                 | Inr compositeKey \<Rightarrow>
                    (case Marshal_MetaInfo m' of
                       Inl err \<Rightarrow> (Some (MarshalFailed err), st1)
                     | Inr metaJSON \<Rightarrow>
                        (case PutState st1 compositeKey metaJSON of
                           Inl err \<Rightarrow> (Some (PutStateFailed err), st1)
                         | Inr st2 \<Rightarrow> InitLedger_Students fv st2 Students MetaStudents)))))"
| "InitLedger_Students fv st _ _ = (None, st)"

fun InitLedger_TakenCourses ::
  "(float32 \<Rightarrow> string) \<Rightarrow> world_state \<Rightarrow> TakenCourse list \<Rightarrow> MetaInfo list
   \<Rightarrow> error option \<times> world_state" where
  "InitLedger_TakenCourses fv st (t # TakenCourses) (m # MetaTakenCourses) =
     (let generatedHashValue = StructToMD5 fv (TC t);
          t' = t\<lparr>TakenCourse.HashValue := generatedHashValue\<rparr>;
          m' = m\<lparr>MetaInfo.HashValue := generatedHashValue\<rparr>
      in case Marshal_TakenCourse t' of
           Inl err \<Rightarrow> (Some (MarshalFailed err), st)
         | Inr infoJSON \<Rightarrow>
            (case PutState st (TakenCourse.HashValue t') infoJSON of
               Inl err \<Rightarrow> (Some (PutStateFailed err), st)
             | Inr st1 \<Rightarrow>
                (case CreateCompositeKey ''heiID''
                        [Owner m', MetaInfo.StudentID m', MetaInfo.HashValue m'] of
                   Inl err \<Rightarrow> (Some (CompositeKeyFailed err), st1)
                 | Inr compositeKey \<Rightarrow>
                    (case Marshal_MetaInfo m' of
                       Inl err \<Rightarrow> (Some (MarshalFailed err), st1)
                     | Inr metaJSON \<Rightarrow>
                        (case PutState st1 compositeKey metaJSON of
                           Inl err \<Rightarrow> (Some (PutStateFailed err), st1)
                         | Inr st2 \<Rightarrow> InitLedger_TakenCourses fv st2 TakenCourses MetaTakenCourses)))))"
| "InitLedger_TakenCourses fv st _ _ = (None, st)"

fun InitLedger_CourseInfoS ::
  "(float32 \<Rightarrow> string) \<Rightarrow> world_state \<Rightarrow> CourseInfo list \<Rightarrow> MetaInfo list
   \<Rightarrow> error option \<times> world_state" where
  "InitLedger_CourseInfoS fv st (c # CourseInfoS) (m # MetaCourseInfoS) =
     (let generatedHashValue = StructToMD5 fv (CI c);
          c' = c\<lparr>CourseInfo.HashValue := generatedHashValue\<rparr>;
          m' = m\<lparr>MetaInfo.HashValue := generatedHashValue\<rparr>
      in case Marshal_CourseInfo c' of
           Inl err \<Rightarrow> (Some (MarshalFailed err), st)
         | Inr infoJSON \<Rightarrow>
            (case PutState st (CourseInfo.HashValue c') infoJSON of
               Inl err \<Rightarrow> (Some (PutStateFailed err), st)
             | Inr st1 \<Rightarrow>
                (case CreateCompositeKey ''heiID''
                        [Owner m', MetaInfo.StudentID m', MetaInfo.HashValue m'] of
                   Inl err \<Rightarrow> (Some (CompositeKeyFailed err), st1)
                 | Inr compositeKey \<Rightarrow>
                    (case Marshal_MetaInfo m' of
                       Inl err \<Rightarrow> (Some (MarshalFailed err), st1)
                     | Inr metaJSON \<Rightarrow>
                        (case PutState st1 compositeKey metaJSON of
                           Inl err \<Rightarrow> (Some (PutStateFailed err), st1)
                         | Inr st2 \<Rightarrow> InitLedger_CourseInfoS fv st2 CourseInfoS MetaCourseInfoS)))))"
| "InitLedger_CourseInfoS fv st _ _ = (None, st)"

definition Students :: "StudentInfo list" where
  "Students =
    [\<lparr>StudentInfo.Faculty = ''Faculty of Engineering and Architecture'',
      StudentInfo.Department = ''Department of Computer Engineering'',
      StudentInfo.StudentID = 190908809, StudentInfo.StudentSurname = ''Selvi'',
      StudentInfo.StudentName = ''Osman'', StudentInfo.NationalID = ''44262495576'',
      StudentInfo.RegistrationDate = ''02.09.2022'', StudentInfo.RegistrationType = ''Major / OSYM'',
      StudentInfo.ProgramType = ''Undergraduate'', StudentInfo.Class = 1,
      StudentInfo.StudentSemester = 1, StudentInfo.HashValue = []\<rparr>]"

definition seed_meta :: "string \<Rightarrow> MetaInfo" where
  "seed_meta relation = \<lparr>MetaInfo.Owner = ''Fenerbahce University'', MetaInfo.StudentID = ''190908809'',
     MetaInfo.Relation = relation, MetaInfo.HashValue = ''NULL''\<rparr>"

definition MetaStudents :: "MetaInfo list" where
  "MetaStudents = [seed_meta ''StudentInfo'']"

definition TakenCourses :: "TakenCourse list" where
  "TakenCourses =
    [\<lparr>TakenCourse.StudentID = 190908809, TakenCourse.CourseCode = ''COMP1001'', TakenCourse.Grade = ''AA'',
      TakenCourse.Point = 0x41A00000, TakenCourse.TakenSemester = 1, TakenCourse.HashValue = []\<rparr>,
     \<lparr>TakenCourse.StudentID = 190908809, TakenCourse.CourseCode = ''COMP1003'', TakenCourse.Grade = ''BA'',
      TakenCourse.Point = 0x41A80000, TakenCourse.TakenSemester = 1, TakenCourse.HashValue = []\<rparr>,
     \<lparr>TakenCourse.StudentID = 190908809, TakenCourse.CourseCode = ''ENG103'', TakenCourse.Grade = ''BB'',
      TakenCourse.Point = 0x40C00000, TakenCourse.TakenSemester = 1, TakenCourse.HashValue = []\<rparr>,
     \<lparr>TakenCourse.StudentID = 190908809, TakenCourse.CourseCode = ''MATH1001'', TakenCourse.Grade = ''CB'',
      TakenCourse.Point = 0x41973333, TakenCourse.TakenSemester = 1, TakenCourse.HashValue = []\<rparr>,
     \<lparr>TakenCourse.StudentID = 190908809, TakenCourse.CourseCode = ''PHYS1001'', TakenCourse.Grade = ''CC'',
      TakenCourse.Point = 0x41000000, TakenCourse.TakenSemester = 1, TakenCourse.HashValue = []\<rparr>,
     \<lparr>TakenCourse.StudentID = 190908809, TakenCourse.CourseCode = ''PHYS1011'', TakenCourse.Grade = ''CC'',
      TakenCourse.Point = 0x40800000, TakenCourse.TakenSemester = 1, TakenCourse.HashValue = []\<rparr>,
     \<lparr>TakenCourse.StudentID = 190908809, TakenCourse.CourseCode = ''TURK103'', TakenCourse.Grade = ''BB'',
      TakenCourse.Point = 0x40C00000, TakenCourse.TakenSemester = 1, TakenCourse.HashValue = []\<rparr>,
     \<lparr>TakenCourse.StudentID = 190908809, TakenCourse.CourseCode = ''UNI103'', TakenCourse.Grade = ''AA'',
      TakenCourse.Point = 0x41000000, TakenCourse.TakenSemester = 1, TakenCourse.HashValue = []\<rparr>]"

definition MetaTakenCourses :: "MetaInfo list" where
  "MetaTakenCourses = replicate 8 (seed_meta ''TakenCourse'')"

definition CourseInfoS :: "CourseInfo list" where
  "CourseInfoS =
    [\<lparr>CourseInfo.CourseCode = ''COMP1001'', CourseInfo.CourseName = ''Fundamentals of Computer Engineering'',
      CourseInfo.CourseType = ''C'', CourseInfo.ECTS = 5, CourseInfo.Credit = 3, CourseInfo.HashValue = []\<rparr>,
     \<lparr>CourseInfo.CourseCode = ''COMP1003'', CourseInfo.CourseName = ''Algorithms and Programming I'',
      CourseInfo.CourseType = ''C'', CourseInfo.ECTS = 6, CourseInfo.Credit = 3, CourseInfo.HashValue = []\<rparr>,
     \<lparr>CourseInfo.CourseCode = ''ENG103'', CourseInfo.CourseName = ''Advanced English I'',
      CourseInfo.CourseType = ''C'', CourseInfo.ECTS = 2, CourseInfo.Credit = 2, CourseInfo.HashValue = []\<rparr>,
     \<lparr>CourseInfo.CourseCode = ''MATH1001'', CourseInfo.CourseName = ''Calculus I'',
      CourseInfo.CourseType = ''C'', CourseInfo.ECTS = 7, CourseInfo.Credit = 4, CourseInfo.HashValue = []\<rparr>,
     \<lparr>CourseInfo.CourseCode = ''PHYS1001'', CourseInfo.CourseName = ''Physics I'',
      CourseInfo.CourseType = ''C'', CourseInfo.ECTS = 4, CourseInfo.Credit = 3, CourseInfo.HashValue = []\<rparr>,
     \<lparr>CourseInfo.CourseCode = ''PHYS1011'', CourseInfo.CourseName = ''Physics I Laboratory'',
      CourseInfo.CourseType = ''C'', CourseInfo.ECTS = 2, CourseInfo.Credit = 1, CourseInfo.HashValue = []\<rparr>,
     \<lparr>CourseInfo.CourseCode = ''TURK103'', CourseInfo.CourseName = ''Turkish Language I'',
      CourseInfo.CourseType = ''C'', CourseInfo.ECTS = 2, CourseInfo.Credit = 2, CourseInfo.HashValue = []\<rparr>,
     \<lparr>CourseInfo.CourseCode = ''UNI103'', CourseInfo.CourseName = ''University Life and Culture'',
      CourseInfo.CourseType = ''C'', CourseInfo.ECTS = 2, CourseInfo.Credit = 2, CourseInfo.HashValue = []\<rparr>]"

definition MetaCourseInfoS :: "MetaInfo list" where
  "MetaCourseInfoS = replicate 8 (seed_meta ''CourseInfo'')"

definition InitLedger :: "(float32 \<Rightarrow> string) \<Rightarrow> world_state \<Rightarrow> error option \<times> world_state" where
  "InitLedger fv st =
     (case InitLedger_Students fv st Students MetaStudents of
        (Some err, st1) \<Rightarrow> (Some err, st1)
      | (None, st1) \<Rightarrow>
         (case InitLedger_TakenCourses fv st1 TakenCourses MetaTakenCourses of
            (Some err, st2) \<Rightarrow> (Some err, st2)
          | (None, st2) \<Rightarrow> InitLedger_CourseInfoS fv st2 CourseInfoS MetaCourseInfoS))"

subsection \<open>Queries over the meta entries\<close>

text \<open>
  The loop \<^verbatim>\<open>for iterator.HasNext()\<close> of the \<^verbatim>\<open>..._HashValues\<close> functions: it decodes each
  row into a \<^verbatim>\<open>MetaInfo\<close> and appends its hash value.
\<close>

fun collect_HashValues :: "(string \<times> document) list \<Rightarrow> string list \<Rightarrow> error + string list" where
  "collect_HashValues [] hashValues = Inr hashValues"
| "collect_HashValues (queryRow # iterator) hashValues =
     (case Unmarshal_MetaInfo (snd queryRow) of
        Inl err \<Rightarrow> Inl (UnmarshalFailed err)
      | Inr record \<Rightarrow> collect_HashValues iterator (hashValues @ [MetaInfo.HashValue record]))"

text \<open>The same loop in the \<^verbatim>\<open>Get_HEI_MetaInfos_...\<close> functions, which keep the whole entry.\<close>

fun collect_MetaInfos :: "(string \<times> document) list \<Rightarrow> MetaInfo list \<Rightarrow> error + MetaInfo list" where
  "collect_MetaInfos [] records = Inr records"
| "collect_MetaInfos (queryRow # iterator) records =
     (case Unmarshal_MetaInfo (snd queryRow) of
        Inl err \<Rightarrow> Inl (UnmarshalFailed err)
      | Inr record \<Rightarrow> collect_MetaInfos iterator (records @ [record]))"

definition Get_Student_StudentInfo_HashValues :: "world_state \<Rightarrow> string \<Rightarrow> string \<Rightarrow> error + string list" where
  "Get_Student_StudentInfo_HashValues st hei studentID =
     (case GetQueryResult st [(''owner'', hei), (''relation'', ''StudentInfo''), (''student_id'', studentID)] of
        Inl err \<Rightarrow> Inl (ReadFailed err)
      | Inr iterator \<Rightarrow>
         if iterator = [] then Inl NoRecordFound else collect_HashValues iterator [])"

definition Get_Student_CourseInfos_HashValues :: "world_state \<Rightarrow> string \<Rightarrow> string \<Rightarrow> error + string list" where
  "Get_Student_CourseInfos_HashValues st hei studentID =
     (case GetQueryResult st [(''owner'', hei), (''relation'', ''CourseInfo''), (''student_id'', studentID)] of
        Inl err \<Rightarrow> Inl (ReadFailed err)
      | Inr iterator \<Rightarrow>
         if iterator = [] then Inl NoRecordFound else collect_HashValues iterator [])"

definition Get_Student_TakenCourses_HashValues :: "world_state \<Rightarrow> string \<Rightarrow> string \<Rightarrow> error + string list" where
  "Get_Student_TakenCourses_HashValues st hei studentID =
     (case GetQueryResult st [(''owner'', hei), (''relation'', ''TakenCourse''), (''student_id'', studentID)] of
        Inl err \<Rightarrow> Inl (ReadFailed err)
      | Inr iterator \<Rightarrow>
         if iterator = [] then Inl NoRecordFound else collect_HashValues iterator [])"

definition Get_StudentInfo_ByHashValue :: "world_state \<Rightarrow> string \<Rightarrow> error + StudentInfo" where
  "Get_StudentInfo_ByHashValue st hashValue =
     (case GetState st hashValue of
        Inl err \<Rightarrow> Inl (ReadFailed err)
      | Inr None \<Rightarrow> Inl (NoRecordWithHash hashValue)
      | Inr (Some jsonData) \<Rightarrow>
         (case Unmarshal_StudentInfo jsonData of
            Inl err \<Rightarrow> Inl (UnmarshalFailed err)
          | Inr infoStudent \<Rightarrow> Inr infoStudent))"

definition Get_CourseInfo_ByHashValue :: "world_state \<Rightarrow> string \<Rightarrow> error + CourseInfo" where
  "Get_CourseInfo_ByHashValue st hashValue =
     (case GetState st hashValue of
        Inl err \<Rightarrow> Inl (ReadFailed err)
      | Inr None \<Rightarrow> Inl (NoRecordWithHash hashValue)
      | Inr (Some jsonData) \<Rightarrow>
         (case Unmarshal_CourseInfo jsonData of
            Inl err \<Rightarrow> Inl (UnmarshalFailed err)
          | Inr infoCourse \<Rightarrow> Inr infoCourse))"

definition Get_TakenCourse_ByHashValue :: "world_state \<Rightarrow> string \<Rightarrow> error + TakenCourse" where
  "Get_TakenCourse_ByHashValue st hashValue =
     (case GetState st hashValue of
        Inl err \<Rightarrow> Inl (ReadFailed err)
      | Inr None \<Rightarrow> Inl (NoRecordWithHash hashValue)
      | Inr (Some jsonData) \<Rightarrow>
         (case Unmarshal_TakenCourse jsonData of
            Inl err \<Rightarrow> Inl (UnmarshalFailed err)
          | Inr takenCourse \<Rightarrow> Inr takenCourse))"

text \<open>
  \<^verbatim>\<open>Get_Student_StudentInfo\<close> keeps one pointer, nil at first, and assigns it in every
  iteration.
\<close>

fun fetch_StudentInfo :: "world_state \<Rightarrow> string list \<Rightarrow> StudentInfo option \<Rightarrow> error + StudentInfo option" where
  "fetch_StudentInfo st [] recordStudentInfo = Inr recordStudentInfo"
| "fetch_StudentInfo st (hashValue # hashValues) recordStudentInfo =
     (case Get_StudentInfo_ByHashValue st hashValue of
        Inl err \<Rightarrow> Inl (FetchFailed err)
      | Inr infoStudent \<Rightarrow> fetch_StudentInfo st hashValues (Some infoStudent))"

definition Get_Student_StudentInfo :: "world_state \<Rightarrow> string \<Rightarrow> string \<Rightarrow> error + StudentInfo option" where
  "Get_Student_StudentInfo st hei studentID =
     (case Get_Student_StudentInfo_HashValues st hei studentID of
        Inl err \<Rightarrow> Inl (ReadFailed err)
      | Inr hashValueofStudentInfo \<Rightarrow> fetch_StudentInfo st hashValueofStudentInfo None)"

fun fetch_CourseInfos :: "world_state \<Rightarrow> string list \<Rightarrow> CourseInfo list \<Rightarrow> error + CourseInfo list" where
  "fetch_CourseInfos st [] records = Inr records"
| "fetch_CourseInfos st (hashValue # hashValues) records =
     (case Get_CourseInfo_ByHashValue st hashValue of
        Inl err \<Rightarrow> Inl (FetchFailed err)
      | Inr course \<Rightarrow> fetch_CourseInfos st hashValues (records @ [course]))"

definition Get_Student_CourseInfos :: "world_state \<Rightarrow> string \<Rightarrow> string \<Rightarrow> error + CourseInfo list" where
  "Get_Student_CourseInfos st hei studentID =
     (case Get_Student_CourseInfos_HashValues st hei studentID of
        Inl err \<Rightarrow> Inl (ReadFailed err)
      | Inr hashValues \<Rightarrow> fetch_CourseInfos st hashValues [])"

fun fetch_TakenCourses :: "world_state \<Rightarrow> string list \<Rightarrow> TakenCourse list \<Rightarrow> error + TakenCourse list" where
  "fetch_TakenCourses st [] records = Inr records"
| "fetch_TakenCourses st (hashValue # hashValues) records =
     (case Get_TakenCourse_ByHashValue st hashValue of
        Inl err \<Rightarrow> Inl (FetchFailed err)
      | Inr course \<Rightarrow> fetch_TakenCourses st hashValues (records @ [course]))"

definition Get_Student_TakenCourses :: "world_state \<Rightarrow> string \<Rightarrow> string \<Rightarrow> error + TakenCourse list" where
  "Get_Student_TakenCourses st hei studentID =
     (case Get_Student_TakenCourses_HashValues st hei studentID of
        Inl err \<Rightarrow> Inl (ReadFailed err)
      | Inr hashValues \<Rightarrow> fetch_TakenCourses st hashValues [])"

definition Get_HEI_MetaInfos_TakenCourses :: "world_state \<Rightarrow> string \<Rightarrow> error + MetaInfo list" where
  "Get_HEI_MetaInfos_TakenCourses st hei =
     (case GetQueryResult st [(''owner'', hei), (''relation'', ''TakenCourse'')] of
        Inl err \<Rightarrow> Inl (ReadFailed err)
      | Inr iterator \<Rightarrow>
         if iterator = [] then Inl NoRecordFound else collect_MetaInfos iterator [])"

fun fetch_HEI_TakenCourses :: "world_state \<Rightarrow> MetaInfo list \<Rightarrow> TakenCourse list \<Rightarrow> error + TakenCourse list" where
  "fetch_HEI_TakenCourses st [] recordsStudentInfo = Inr recordsStudentInfo"
| "fetch_HEI_TakenCourses st (record # records) recordsStudentInfo =
     (case Get_TakenCourse_ByHashValue st (MetaInfo.HashValue record) of
        Inl err \<Rightarrow> Inl (Rethrown err)
      | Inr recordStudentInfo \<Rightarrow>
         fetch_HEI_TakenCourses st records (recordsStudentInfo @ [recordStudentInfo]))"

definition Get_HEI_TakenCourses :: "world_state \<Rightarrow> string \<Rightarrow> error + TakenCourse list" where
  "Get_HEI_TakenCourses st hei =
     (case Get_HEI_MetaInfos_TakenCourses st hei of
        Inl err \<Rightarrow> Inl (ReadFailed err)
      | Inr records \<Rightarrow> fetch_HEI_TakenCourses st records [])"

definition Get_HEI_MetaInfos_StudentInfos :: "world_state \<Rightarrow> string \<Rightarrow> error + MetaInfo list" where
  "Get_HEI_MetaInfos_StudentInfos st hei =
     (case GetQueryResult st [(''owner'', hei), (''relation'', ''StudentInfo'')] of
        Inl err \<Rightarrow> Inl (ReadFailed err)
      | Inr iterator \<Rightarrow>
         if iterator = [] then Inl NoRecordFound else collect_MetaInfos iterator [])"

fun fetch_HEI_StudentInfos :: "world_state \<Rightarrow> MetaInfo list \<Rightarrow> StudentInfo list \<Rightarrow> error + StudentInfo list" where
  "fetch_HEI_StudentInfos st [] recordsStudentInfo = Inr recordsStudentInfo"
| "fetch_HEI_StudentInfos st (record # records) recordsStudentInfo =
     (case Get_StudentInfo_ByHashValue st (MetaInfo.HashValue record) of
        Inl err \<Rightarrow> Inl (Rethrown err)
      | Inr recordStudentInfo \<Rightarrow>
         fetch_HEI_StudentInfos st records (recordsStudentInfo @ [recordStudentInfo]))"

definition Get_HEI_StudentInfos :: "world_state \<Rightarrow> string \<Rightarrow> error + StudentInfo list" where
  "Get_HEI_StudentInfos st hei =
     (case Get_HEI_MetaInfos_StudentInfos st hei of
        Inl err \<Rightarrow> Inl (ReadFailed err)
      | Inr records \<Rightarrow> fetch_HEI_StudentInfos st records [])"

definition Get_HEI_MetaInfos_CourseInfos :: "world_state \<Rightarrow> string \<Rightarrow> error + MetaInfo list" where
  "Get_HEI_MetaInfos_CourseInfos st hei =
     (case GetQueryResult st [(''owner'', hei), (''relation'', ''CourseInfo'')] of
        Inl err \<Rightarrow> Inl (ReadFailed err)
      | Inr iterator \<Rightarrow>
         if iterator = [] then Inl NoRecordFound else collect_MetaInfos iterator [])"

fun fetch_HEI_CourseInfos :: "world_state \<Rightarrow> MetaInfo list \<Rightarrow> CourseInfo list \<Rightarrow> error + CourseInfo list" where
  "fetch_HEI_CourseInfos st [] recordsStudentInfo = Inr recordsStudentInfo"
| "fetch_HEI_CourseInfos st (record # records) recordsStudentInfo =
     (case Get_CourseInfo_ByHashValue st (MetaInfo.HashValue record) of
        Inl err \<Rightarrow> Inl (Rethrown err)
      | Inr recordStudentInfo \<Rightarrow>
         fetch_HEI_CourseInfos st records (recordsStudentInfo @ [recordStudentInfo]))"

definition Get_HEI_CourseInfos :: "world_state \<Rightarrow> string \<Rightarrow> error + CourseInfo list" where
  "Get_HEI_CourseInfos st hei =
     (case Get_HEI_MetaInfos_CourseInfos st hei of
        Inl err \<Rightarrow> Inl (ReadFailed err)
      | Inr records \<Rightarrow> fetch_HEI_CourseInfos st records [])"

subsection \<open>The transcript\<close>

definition zero_CombinedCourseRecords :: CombinedCourseRecords where
  "zero_CombinedCourseRecords =
     \<lparr>CourseCode = [], CourseName = [], CourseType = [], ECTS = 0, Credit = 0, Grade = [],
      Point = 0, TakenSemester = 0\<rparr>"

text \<open>The inner loop over \<open>infoCourses\<close>: it writes into the one \<open>newCourseCombined\<close> of
  the taken course and appends a copy for every course info of the same code.\<close>

fun combine_infos ::
  "TakenCourse \<Rightarrow> CourseInfo list \<Rightarrow> CombinedCourseRecords \<Rightarrow> CombinedCourseRecords list
   \<Rightarrow> CombinedCourseRecords list" where
  "combine_infos course [] newCourseCombined coursesTakenbyStudent = coursesTakenbyStudent"
| "combine_infos course (info # infoCourses) newCourseCombined coursesTakenbyStudent =
     (if TakenCourse.CourseCode course = CourseInfo.CourseCode info
      then (let newCourseCombined' = newCourseCombined
                  \<lparr>CourseName := CourseInfo.CourseName info, CourseType := CourseInfo.CourseType info,
                   ECTS := CourseInfo.ECTS info, Credit := CourseInfo.Credit info\<rparr>
            in combine_infos course infoCourses newCourseCombined'
                 (coursesTakenbyStudent @ [newCourseCombined']))
      else combine_infos course infoCourses newCourseCombined coursesTakenbyStudent)"

text \<open>The outer loop over \<open>coursesTaken\<close>.\<close>

fun combine_courses ::
  "TakenCourse list \<Rightarrow> CourseInfo list \<Rightarrow> CombinedCourseRecords list \<Rightarrow> CombinedCourseRecords list" where
  "combine_courses [] infoCourses coursesTakenbyStudent = coursesTakenbyStudent"
| "combine_courses (course # coursesTaken) infoCourses coursesTakenbyStudent =
     combine_courses coursesTaken infoCourses
       (combine_infos course infoCourses
          (zero_CombinedCourseRecords
             \<lparr>CourseCode := TakenCourse.CourseCode course, Grade := TakenCourse.Grade course,
              Point := TakenCourse.Point course, TakenSemester := TakenCourse.TakenSemester course\<rparr>)
          coursesTakenbyStudent)"

definition GetStudentTranscript :: "world_state \<Rightarrow> string \<Rightarrow> string \<Rightarrow> error + StudentTranscript" where
  "GetStudentTranscript st hei studentID =
     (case Get_Student_StudentInfo st hei studentID of
        Inl err \<Rightarrow> Inl (TranscriptFailed err)
      | Inr infoStudent \<Rightarrow>
         (case Get_Student_CourseInfos st hei studentID of
            Inl err \<Rightarrow> Inl (TranscriptFailed err)
          | Inr infoCourses \<Rightarrow>
             (case Get_Student_TakenCourses st hei studentID of
                Inl err \<Rightarrow> Inl (TranscriptFailed err)
              | Inr coursesTaken \<Rightarrow>
                 (let coursesTakenbyStudent = combine_courses coursesTaken infoCourses []
                  in case infoStudent of
                       None \<Rightarrow> Inl NilDereference
                     | Some s \<Rightarrow> Inr \<lparr>InfoStudent = s, Courses = coursesTakenbyStudent\<rparr>))))"

section \<open>Notions used in the statements\<close>

text \<open>A string of ASCII characters other than NUL.\<close>

definition plain :: "string \<Rightarrow> bool" where
  "plain s = list_all (\<lambda>c. 0 < (of_char c :: nat) \<and> (of_char c :: nat) < 128) s"

text \<open>The store holds a meta entry with the triple (owner, student id, digest).\<close>

definition meta_exists :: "world_state \<Rightarrow> string \<Rightarrow> string \<Rightarrow> string \<Rightarrow> bool" where
  "meta_exists st owner sid h =
     list_ex (\<lambda>(key, d). case d of
                 MetaInfoJSON m \<Rightarrow> Owner m = owner \<and> MetaInfo.StudentID m = sid \<and> MetaInfo.HashValue m = h
               | _ \<Rightarrow> False) st"

definition composite_key :: "string \<Rightarrow> string \<Rightarrow> string \<Rightarrow> string" where
  "composite_key owner sid h =
     CHR 0x00 # ''heiID'' @ [CHR 0x00] @ owner @ [CHR 0x00] @ sid @ [CHR 0x00] @ h @ [CHR 0x00]"

definition meta_entry :: "string \<Rightarrow> string \<Rightarrow> string \<Rightarrow> string \<Rightarrow> MetaInfo" where
  "meta_entry owner sid relation h =
     \<lparr>MetaInfo.Owner = owner, MetaInfo.StudentID = sid, MetaInfo.Relation = relation,
      MetaInfo.HashValue = h\<rparr>"

text \<open>The record an insert populates from its arguments, before it computes the digest.\<close>

definition new_StudentInfo ::
  "string \<Rightarrow> string \<Rightarrow> int \<Rightarrow> string \<Rightarrow> string \<Rightarrow> string \<Rightarrow> string \<Rightarrow> string \<Rightarrow> string \<Rightarrow> int \<Rightarrow> int
   \<Rightarrow> StudentInfo" where
  "new_StudentInfo faculty department studentId surname name nationalid registrationdate
     registrationtype programtype class semester =
     \<lparr>StudentInfo.Faculty = faculty, StudentInfo.Department = department,
      StudentInfo.StudentID = studentId, StudentInfo.StudentSurname = surname,
      StudentInfo.StudentName = name, StudentInfo.NationalID = nationalid,
      StudentInfo.RegistrationDate = registrationdate,
      StudentInfo.RegistrationType = registrationtype,
      StudentInfo.ProgramType = programtype, StudentInfo.Class = class,
      StudentInfo.StudentSemester = semester, StudentInfo.HashValue = []\<rparr>"

definition new_TakenCourse :: "int \<Rightarrow> string \<Rightarrow> string \<Rightarrow> float32 \<Rightarrow> int \<Rightarrow> TakenCourse" where
  "new_TakenCourse studentId courseCode grade point takenSemester =
     \<lparr>TakenCourse.StudentID = studentId, TakenCourse.CourseCode = courseCode,
      TakenCourse.Grade = grade, TakenCourse.Point = point,
      TakenCourse.TakenSemester = takenSemester, TakenCourse.HashValue = []\<rparr>"

definition new_CourseInfo :: "string \<Rightarrow> string \<Rightarrow> string \<Rightarrow> int \<Rightarrow> int \<Rightarrow> CourseInfo" where
  "new_CourseInfo courseCode courseName courseType ects credit =
     \<lparr>CourseInfo.CourseCode = courseCode, CourseInfo.CourseName = courseName,
      CourseInfo.CourseType = courseType, CourseInfo.ECTS = ects,
      CourseInfo.Credit = credit, CourseInfo.HashValue = []\<rparr>"

text \<open>What an insert does, in one equation: the record \<open>r\<close> it populates, the digest \<open>d\<close>.\<close>

definition insert_outcome ::
  "world_state \<Rightarrow> string \<Rightarrow> string \<Rightarrow> string \<Rightarrow> string \<Rightarrow> error + document
   \<Rightarrow> (bool \<times> error option) \<times> world_state" where
  "insert_outcome st owner sid relation d marshalled =
     (if meta_exists st owner sid d then ((False, Some RecordExists), st)
      else (case marshalled of
         Inl err \<Rightarrow> ((False, Some (MarshalFailed err)), st)
       | Inr doc \<Rightarrow>
          if validateCompositeKeyAttribute owner
          then ((True, None),
                AList.update (composite_key owner sid d)
                  (MetaInfoJSON (meta_entry owner sid relation d)) (AList.update d doc st))
          else ((False, Some (CompositeKeyFailed InvalidKeyAttribute)), AList.update d doc st)))"

text \<open>
  A rendering of the points of \<^verbatim>\<open>InitLedger\<close> (20, 21, 6, 18.9, 8, 4) and of 18 as \<^verbatim>\<open>%v\<close>
  prints them;
  it makes \<open>fv\<close> concrete in the closed examples and says nothing about other values.
\<close>

definition seed_fv :: "float32 \<Rightarrow> string" where
  "seed_fv p =
     (if p = 0x41A00000 then ''20'' else if p = 0x41A80000 then ''21''
      else if p = 0x40C00000 then ''6'' else if p = 0x41973333 then ''18.9''
      else if p = 0x41000000 then ''8'' else if p = 0x40800000 then ''4''
      else if p = 0x41900000 then ''18'' else [])"

text \<open>
  The seventeen records of \<^verbatim>\<open>InitLedger\<close> in the order it writes them, and their digests.
\<close>

definition seed_structs :: "struct list" where
  "seed_structs = map SI Students @ map TC TakenCourses @ map CI CourseInfoS"

definition seed_digests :: "(float32 \<Rightarrow> string) \<Rightarrow> string list" where
  "seed_digests fv = map (StructToMD5 fv) seed_structs"

text \<open>
  The world state that \<^verbatim>\<open>InitLedger\<close> leaves when it starts from the empty one and the
  seventeen digests differ: what its three loops write, in the order of the writes.
\<close>

definition seeded_students :: "(float32 \<Rightarrow> string) \<Rightarrow> world_state" where
  "seeded_students fv =
    [(seed_digests fv ! 0, StudentInfoJSON ((Students ! 0)\<lparr>StudentInfo.HashValue := seed_digests fv ! 0\<rparr>)),
     (composite_key ''Fenerbahce University'' ''190908809'' (seed_digests fv ! 0),
      MetaInfoJSON (meta_entry ''Fenerbahce University'' ''190908809'' ''StudentInfo'' (seed_digests fv ! 0)))]"

definition seeded_takens :: "(float32 \<Rightarrow> string) \<Rightarrow> world_state" where
  "seeded_takens fv =
    [(seed_digests fv ! 1, TakenCourseJSON ((TakenCourses ! 0)\<lparr>TakenCourse.HashValue := seed_digests fv ! 1\<rparr>)),
     (composite_key ''Fenerbahce University'' ''190908809'' (seed_digests fv ! 1),
      MetaInfoJSON (meta_entry ''Fenerbahce University'' ''190908809'' ''TakenCourse'' (seed_digests fv ! 1))),
     (seed_digests fv ! 2, TakenCourseJSON ((TakenCourses ! 1)\<lparr>TakenCourse.HashValue := seed_digests fv ! 2\<rparr>)),
     (composite_key ''Fenerbahce University'' ''190908809'' (seed_digests fv ! 2),
      MetaInfoJSON (meta_entry ''Fenerbahce University'' ''190908809'' ''TakenCourse'' (seed_digests fv ! 2))),
     (seed_digests fv ! 3, TakenCourseJSON ((TakenCourses ! 2)\<lparr>TakenCourse.HashValue := seed_digests fv ! 3\<rparr>)),
     (composite_key ''Fenerbahce University'' ''190908809'' (seed_digests fv ! 3),
      MetaInfoJSON (meta_entry ''Fenerbahce University'' ''190908809'' ''TakenCourse'' (seed_digests fv ! 3))),
     (seed_digests fv ! 4, TakenCourseJSON ((TakenCourses ! 3)\<lparr>TakenCourse.HashValue := seed_digests fv ! 4\<rparr>)),
     (composite_key ''Fenerbahce University'' ''190908809'' (seed_digests fv ! 4),
      MetaInfoJSON (meta_entry ''Fenerbahce University'' ''190908809'' ''TakenCourse'' (seed_digests fv ! 4))),
     (seed_digests fv ! 5, TakenCourseJSON ((TakenCourses ! 4)\<lparr>TakenCourse.HashValue := seed_digests fv ! 5\<rparr>)),
     (composite_key ''Fenerbahce University'' ''190908809'' (seed_digests fv ! 5),
      MetaInfoJSON (meta_entry ''Fenerbahce University'' ''190908809'' ''TakenCourse'' (seed_digests fv ! 5))),
     (seed_digests fv ! 6, TakenCourseJSON ((TakenCourses ! 5)\<lparr>TakenCourse.HashValue := seed_digests fv ! 6\<rparr>)),
     (composite_key ''Fenerbahce University'' ''190908809'' (seed_digests fv ! 6),
      MetaInfoJSON (meta_entry ''Fenerbahce University'' ''190908809'' ''TakenCourse'' (seed_digests fv ! 6))),
     (seed_digests fv ! 7, TakenCourseJSON ((TakenCourses ! 6)\<lparr>TakenCourse.HashValue := seed_digests fv ! 7\<rparr>)),
     (composite_key ''Fenerbahce University'' ''190908809'' (seed_digests fv ! 7),
      MetaInfoJSON (meta_entry ''Fenerbahce University'' ''190908809'' ''TakenCourse'' (seed_digests fv ! 7))),
     (seed_digests fv ! 8, TakenCourseJSON ((TakenCourses ! 7)\<lparr>TakenCourse.HashValue := seed_digests fv ! 8\<rparr>)),
     (composite_key ''Fenerbahce University'' ''190908809'' (seed_digests fv ! 8),
      MetaInfoJSON (meta_entry ''Fenerbahce University'' ''190908809'' ''TakenCourse'' (seed_digests fv ! 8)))]"

definition seeded_courses :: "(float32 \<Rightarrow> string) \<Rightarrow> world_state" where
  "seeded_courses fv =
    [(seed_digests fv ! 9, CourseInfoJSON ((CourseInfoS ! 0)\<lparr>CourseInfo.HashValue := seed_digests fv ! 9\<rparr>)),
     (composite_key ''Fenerbahce University'' ''190908809'' (seed_digests fv ! 9),
      MetaInfoJSON (meta_entry ''Fenerbahce University'' ''190908809'' ''CourseInfo'' (seed_digests fv ! 9))),
     (seed_digests fv ! 10, CourseInfoJSON ((CourseInfoS ! 1)\<lparr>CourseInfo.HashValue := seed_digests fv ! 10\<rparr>)),
     (composite_key ''Fenerbahce University'' ''190908809'' (seed_digests fv ! 10),
      MetaInfoJSON (meta_entry ''Fenerbahce University'' ''190908809'' ''CourseInfo'' (seed_digests fv ! 10))),
     (seed_digests fv ! 11, CourseInfoJSON ((CourseInfoS ! 2)\<lparr>CourseInfo.HashValue := seed_digests fv ! 11\<rparr>)),
     (composite_key ''Fenerbahce University'' ''190908809'' (seed_digests fv ! 11),
      MetaInfoJSON (meta_entry ''Fenerbahce University'' ''190908809'' ''CourseInfo'' (seed_digests fv ! 11))),
     (seed_digests fv ! 12, CourseInfoJSON ((CourseInfoS ! 3)\<lparr>CourseInfo.HashValue := seed_digests fv ! 12\<rparr>)),
     (composite_key ''Fenerbahce University'' ''190908809'' (seed_digests fv ! 12),
      MetaInfoJSON (meta_entry ''Fenerbahce University'' ''190908809'' ''CourseInfo'' (seed_digests fv ! 12))),
     (seed_digests fv ! 13, CourseInfoJSON ((CourseInfoS ! 4)\<lparr>CourseInfo.HashValue := seed_digests fv ! 13\<rparr>)),
     (composite_key ''Fenerbahce University'' ''190908809'' (seed_digests fv ! 13),
      MetaInfoJSON (meta_entry ''Fenerbahce University'' ''190908809'' ''CourseInfo'' (seed_digests fv ! 13))),
     (seed_digests fv ! 14, CourseInfoJSON ((CourseInfoS ! 5)\<lparr>CourseInfo.HashValue := seed_digests fv ! 14\<rparr>)),
     (composite_key ''Fenerbahce University'' ''190908809'' (seed_digests fv ! 14),
      MetaInfoJSON (meta_entry ''Fenerbahce University'' ''190908809'' ''CourseInfo'' (seed_digests fv ! 14))),
     (seed_digests fv ! 15, CourseInfoJSON ((CourseInfoS ! 6)\<lparr>CourseInfo.HashValue := seed_digests fv ! 15\<rparr>)),
     (composite_key ''Fenerbahce University'' ''190908809'' (seed_digests fv ! 15),
      MetaInfoJSON (meta_entry ''Fenerbahce University'' ''190908809'' ''CourseInfo'' (seed_digests fv ! 15))),
     (seed_digests fv ! 16, CourseInfoJSON ((CourseInfoS ! 7)\<lparr>CourseInfo.HashValue := seed_digests fv ! 16\<rparr>)),
     (composite_key ''Fenerbahce University'' ''190908809'' (seed_digests fv ! 16),
      MetaInfoJSON (meta_entry ''Fenerbahce University'' ''190908809'' ''CourseInfo'' (seed_digests fv ! 16)))]"

definition seeded :: "(float32 \<Rightarrow> string) \<Rightarrow> world_state" where
  "seeded fv = seeded_students fv @ seeded_takens fv @ seeded_courses fv"

text \<open>
  Inserts run one after the other, each on the state the one before left, as long as they
  succeed; and the seventeen inserts that carry the records of \<^verbatim>\<open>InitLedger\<close>.
\<close>

fun insert_all ::
  "(world_state \<Rightarrow> (bool \<times> error option) \<times> world_state) list \<Rightarrow> world_state
   \<Rightarrow> (bool \<times> error option) \<times> world_state" where
  "insert_all [] st = ((True, None), st)"
| "insert_all (f # fs) st =
     (if fst (f st) = (True, None) then insert_all fs (snd (f st)) else f st)"

definition seed_inserts ::
  "(float32 \<Rightarrow> string) \<Rightarrow> (world_state \<Rightarrow> (bool \<times> error option) \<times> world_state) list" where
  "seed_inserts fv =
     map (\<lambda>s st. InsertNewRecordStudentInfo fv st ''Fenerbahce University'' (Faculty s)
            (Department s) (StudentInfo.StudentID s) (StudentSurname s) (StudentName s)
            (NationalID s) (RegistrationDate s) (RegistrationType s) (ProgramType s) (Class s)
            (StudentSemester s)) Students
     @ map (\<lambda>t st. InsertNewRecordTakenCourse fv st ''Fenerbahce University''
            (TakenCourse.StudentID t) (TakenCourse.CourseCode t) (TakenCourse.Grade t)
            (TakenCourse.Point t) (TakenCourse.TakenSemester t)) TakenCourses
     @ map (\<lambda>c st. InsertNewRecordCourseInfo fv st ''Fenerbahce University'' 190908809
            (CourseInfo.CourseCode c) (CourseInfo.CourseName c) (CourseInfo.CourseType c)
            (CourseInfo.ECTS c) (CourseInfo.Credit c)) CourseInfoS"

text \<open>A world state with the meta entries of one student record, one taken course and one
  course info of \<^verbatim>\<open>InitLedger\<close>, for closed examples.\<close>

definition three_metas :: world_state where
  "three_metas =
     [(composite_key ''Fenerbahce University'' ''190908809'' ''2051a462ec54e1bfcb825cebe0af1e40'',
       MetaInfoJSON (meta_entry ''Fenerbahce University'' ''190908809'' ''StudentInfo'' ''2051a462ec54e1bfcb825cebe0af1e40'')),
      (composite_key ''Fenerbahce University'' ''190908809'' ''48c4c683034af0c0a03fbda1d9a1f7cd'',
       MetaInfoJSON (meta_entry ''Fenerbahce University'' ''190908809'' ''TakenCourse'' ''48c4c683034af0c0a03fbda1d9a1f7cd'')),
      (composite_key ''Fenerbahce University'' ''190908809'' ''4f8ba6da0cd2004d5b66eb43ab883cbd'',
       MetaInfoJSON (meta_entry ''Fenerbahce University'' ''190908809'' ''CourseInfo'' ''4f8ba6da0cd2004d5b66eb43ab883cbd''))]"

text \<open>
  Records for closed examples: the student of \<^verbatim>\<open>InitLedger\<close>, the same student in class 2
  and semester 3, the first taken course and the first course info of \<^verbatim>\<open>InitLedger\<close>, and a
  taken course COMP2004 for which there is no course info.
\<close>

definition ex_student_A :: StudentInfo where
  "ex_student_A = new_StudentInfo ''Faculty of Engineering and Architecture''
     ''Department of Computer Engineering'' 190908809 ''Selvi'' ''Osman'' ''44262495576''
     ''02.09.2022'' ''Major / OSYM'' ''Undergraduate'' 1 1"

definition ex_student_B :: StudentInfo where
  "ex_student_B = new_StudentInfo ''Faculty of Engineering and Architecture''
     ''Department of Computer Engineering'' 190908809 ''Selvi'' ''Osman'' ''44262495576''
     ''02.09.2022'' ''Major / OSYM'' ''Undergraduate'' 2 3"

definition ex_taken_1 :: TakenCourse where
  "ex_taken_1 = new_TakenCourse 190908809 ''COMP1001'' ''AA'' 0x41A00000 1"

definition ex_taken_2 :: TakenCourse where
  "ex_taken_2 = new_TakenCourse 190908809 ''COMP2004'' ''BB'' 0x41900000 4"

definition ex_course_1 :: CourseInfo where
  "ex_course_1 = new_CourseInfo ''COMP1001'' ''Fundamentals of Computer Engineering'' ''C'' 5 3"

text \<open>
  The world state after these five records were inserted in the order A, taken 1,
  course 1, taken 2, B; and the state after the first insert alone.
\<close>

definition example_state :: world_state where
  "example_state =
    [(''2051a462ec54e1bfcb825cebe0af1e40'', StudentInfoJSON (ex_student_A\<lparr>StudentInfo.HashValue := ''2051a462ec54e1bfcb825cebe0af1e40''\<rparr>)),
     (composite_key ''Fenerbahce University'' ''190908809'' ''2051a462ec54e1bfcb825cebe0af1e40'',
      MetaInfoJSON (meta_entry ''Fenerbahce University'' ''190908809'' ''StudentInfo'' ''2051a462ec54e1bfcb825cebe0af1e40'')),
     (''48c4c683034af0c0a03fbda1d9a1f7cd'', TakenCourseJSON (ex_taken_1\<lparr>TakenCourse.HashValue := ''48c4c683034af0c0a03fbda1d9a1f7cd''\<rparr>)),
     (composite_key ''Fenerbahce University'' ''190908809'' ''48c4c683034af0c0a03fbda1d9a1f7cd'',
      MetaInfoJSON (meta_entry ''Fenerbahce University'' ''190908809'' ''TakenCourse'' ''48c4c683034af0c0a03fbda1d9a1f7cd'')),
     (''4f8ba6da0cd2004d5b66eb43ab883cbd'', CourseInfoJSON (ex_course_1\<lparr>CourseInfo.HashValue := ''4f8ba6da0cd2004d5b66eb43ab883cbd''\<rparr>)),
     (composite_key ''Fenerbahce University'' ''190908809'' ''4f8ba6da0cd2004d5b66eb43ab883cbd'',
      MetaInfoJSON (meta_entry ''Fenerbahce University'' ''190908809'' ''CourseInfo'' ''4f8ba6da0cd2004d5b66eb43ab883cbd'')),
     (''5fb09b8d68832b5ee32a9fc022cb0655'', TakenCourseJSON (ex_taken_2\<lparr>TakenCourse.HashValue := ''5fb09b8d68832b5ee32a9fc022cb0655''\<rparr>)),
     (composite_key ''Fenerbahce University'' ''190908809'' ''5fb09b8d68832b5ee32a9fc022cb0655'',
      MetaInfoJSON (meta_entry ''Fenerbahce University'' ''190908809'' ''TakenCourse'' ''5fb09b8d68832b5ee32a9fc022cb0655'')),
     (''700d6784c1d14cef3e3fe1e6ab273e38'', StudentInfoJSON (ex_student_B\<lparr>StudentInfo.HashValue := ''700d6784c1d14cef3e3fe1e6ab273e38''\<rparr>)),
     (composite_key ''Fenerbahce University'' ''190908809'' ''700d6784c1d14cef3e3fe1e6ab273e38'',
      MetaInfoJSON (meta_entry ''Fenerbahce University'' ''190908809'' ''StudentInfo'' ''700d6784c1d14cef3e3fe1e6ab273e38''))]"

definition student_only :: world_state where
  "student_only =
    [(''2051a462ec54e1bfcb825cebe0af1e40'', StudentInfoJSON (ex_student_A\<lparr>StudentInfo.HashValue := ''2051a462ec54e1bfcb825cebe0af1e40''\<rparr>)),
     (composite_key ''Fenerbahce University'' ''190908809'' ''2051a462ec54e1bfcb825cebe0af1e40'',
      MetaInfoJSON (meta_entry ''Fenerbahce University'' ''190908809'' ''StudentInfo'' ''2051a462ec54e1bfcb825cebe0af1e40''))]"

text \<open>The entry of a transcript for a taken course and a course info of the same code, and
  the join of the taken courses with the course infos as the specification words it: for
  every taken course, in order, one entry for every course info whose code matches.\<close>

definition combined_record :: "TakenCourse \<Rightarrow> CourseInfo \<Rightarrow> CombinedCourseRecords" where
  "combined_record course info =
     \<lparr>CourseCode = TakenCourse.CourseCode course, CourseName = CourseInfo.CourseName info,
      CourseType = CourseInfo.CourseType info, ECTS = CourseInfo.ECTS info,
      Credit = CourseInfo.Credit info, Grade = TakenCourse.Grade course,
      Point = TakenCourse.Point course, TakenSemester = TakenCourse.TakenSemester course\<rparr>"

definition join_courses :: "TakenCourse list \<Rightarrow> CourseInfo list \<Rightarrow> CombinedCourseRecords list" where
  "join_courses coursesTaken infoCourses =
     concat (map (\<lambda>course. map (combined_record course)
                    (filter (\<lambda>info. TakenCourse.CourseCode course = CourseInfo.CourseCode info) infoCourses))
                 coursesTaken)"

section \<open>Evaluation\<close>

subsection \<open>Digests of given texts\<close>

lemma replicate_numeral_unfold:
  "replicate (numeral k) x = x # replicate (pred_numeral k) x"
  by (simp add: numeral_eq_Suc)

lemmas md5_eval = StringToMD5_def EncodeToString_def hex_digit_def md5_sum_def md5_pad_def
  le_bytes_def md5_block_def md5_table1_def md5_table2_def md5_table3_def md5_table4_def
  md5_F_def md5_G_def md5_H_def md5_I_def rotl32_def add32_def not32_def
  replicate_numeral_unfold

lemma md5_student:
  "StringToMD5 ''Faculty of Engineering and Architecture,Department of Computer Engineering,190908809,Selvi,Osman,44262495576,02.09.2022,Major / OSYM,Undergraduate,1,1'' =
     ''2051a462ec54e1bfcb825cebe0af1e40''"
  by (simp add: md5_eval)

lemma md5_taken_COMP1001:
  "StringToMD5 ''190908809,COMP1001,AA,20,1'' =
     ''48c4c683034af0c0a03fbda1d9a1f7cd''"
  by (simp add: md5_eval)

lemma md5_taken_COMP1003:
  "StringToMD5 ''190908809,COMP1003,BA,21,1'' =
     ''11a347c1045fe87c35504807dc542cc1''"
  by (simp add: md5_eval)

lemma md5_taken_ENG103:
  "StringToMD5 ''190908809,ENG103,BB,6,1'' =
     ''569a9feaf481447cce2627177a52b575''"
  by (simp add: md5_eval)

lemma md5_taken_MATH1001:
  "StringToMD5 ''190908809,MATH1001,CB,18.9,1'' =
     ''bf79b4a7ef7a350a62a5041e4e1fe231''"
  by (simp add: md5_eval)

lemma md5_taken_PHYS1001:
  "StringToMD5 ''190908809,PHYS1001,CC,8,1'' =
     ''5a2cca159b29926b5bc07b0838f8050d''"
  by (simp add: md5_eval)

lemma md5_taken_PHYS1011:
  "StringToMD5 ''190908809,PHYS1011,CC,4,1'' =
     ''80cca6efec7e9299390aacbf02fdea07''"
  by (simp add: md5_eval)

lemma md5_taken_TURK103:
  "StringToMD5 ''190908809,TURK103,BB,6,1'' =
     ''4ce05fe46589c6740b33bf2cc99ddcd2''"
  by (simp add: md5_eval)

lemma md5_taken_UNI103:
  "StringToMD5 ''190908809,UNI103,AA,8,1'' =
     ''8a3dc691a1664f153043086da7fb0c33''"
  by (simp add: md5_eval)

lemma md5_course_COMP1001:
  "StringToMD5 ''COMP1001,Fundamentals of Computer Engineering,C,5,3'' =
     ''4f8ba6da0cd2004d5b66eb43ab883cbd''"
  by (simp add: md5_eval)

lemma md5_course_COMP1003:
  "StringToMD5 ''COMP1003,Algorithms and Programming I,C,6,3'' =
     ''ecb717f91a82ef40ee2ba8c94dc17f40''"
  by (simp add: md5_eval)

lemma md5_course_ENG103:
  "StringToMD5 ''ENG103,Advanced English I,C,2,2'' =
     ''5b5627964f36ab629f886d1e38531370''"
  by (simp add: md5_eval)

lemma md5_course_MATH1001:
  "StringToMD5 ''MATH1001,Calculus I,C,7,4'' =
     ''5a3143869a30233f7b19984a5829a0fb''"
  by (simp add: md5_eval)

lemma md5_course_PHYS1001:
  "StringToMD5 ''PHYS1001,Physics I,C,4,3'' =
     ''34e51f40f4c20a2e374b52e1013c6d93''"
  by (simp add: md5_eval)

lemma md5_course_PHYS1011:
  "StringToMD5 ''PHYS1011,Physics I Laboratory,C,2,1'' =
     ''9f230450cb08e8a00e50a3cd165e12ec''"
  by (simp add: md5_eval)

lemma md5_course_TURK103:
  "StringToMD5 ''TURK103,Turkish Language I,C,2,2'' =
     ''99bb0e8d37dded37725a88e67c1fedc6''"
  by (simp add: md5_eval)

lemma md5_course_UNI103:
  "StringToMD5 ''UNI103,University Life and Culture,C,2,2'' =
     ''64d116ad91a965bc4436c66320da2e8d''"
  by (simp add: md5_eval)

lemma md5_student_B:
  "StringToMD5 ''Faculty of Engineering and Architecture,Department of Computer Engineering,190908809,Selvi,Osman,44262495576,02.09.2022,Major / OSYM,Undergraduate,2,3'' =
     ''700d6784c1d14cef3e3fe1e6ab273e38''"
  by (simp add: md5_eval)

lemma md5_taken_COMP2004:
  "StringToMD5 ''190908809,COMP2004,BB,18,4'' =
     ''5fb09b8d68832b5ee32a9fc022cb0655''"
  by (simp add: md5_eval)

lemma md5_taken_COMP2004_BA:
  "StringToMD5 ''190908809,COMP2004,BA,18,4'' =
     ''8611566e4e63abd88721f358b57a7181''"
  by (simp add: md5_eval)

lemma md5_course_COMP1001_stored:
  "StringToMD5 ''COMP1001,Fundamentals of Computer Engineering,C,5,3,4f8ba6da0cd2004d5b66eb43ab883cb'' =
     ''0abdc97e02d0fc69dd694914180a1a64''"
  by (simp add: md5_eval)

section \<open>Strings, keys and documents\<close>

lemma plain_Nil [simp]: "plain []"
  by (simp add: plain_def)

lemma plain_Cons [simp]: "plain (c # cs) = (0 < (of_char c :: nat) \<and> (of_char c :: nat) < 128 \<and> plain cs)"
  by (simp add: plain_def)

lemma plain_append [simp]: "plain (xs @ ys) = (plain xs \<and> plain ys)"
  by (simp add: plain_def)

lemma rune_size_ascii: "(of_char c :: nat) < 128 \<Longrightarrow> rune_size (c # cs) = 1"
  by simp

lemma plain_ValidString: "plain s \<Longrightarrow> ValidString s"
  by (induction s) (simp_all)

lemma plain_json_string: "plain s \<Longrightarrow> json_string s = s"
  by (induction s) (simp_all)

lemma plain_no_reserved_rune: "plain s \<Longrightarrow> no_reserved_rune s"
proof (induction s)
  case Nil
  then show ?case by simp
next
  case (Cons c cs)
  then have "c \<noteq> CHR 0x00" by auto
  with Cons show ?case by simp
qed

lemma plain_validate: "plain s \<Longrightarrow> validateCompositeKeyAttribute s"
  by (simp add: validateCompositeKeyAttribute_def plain_ValidString plain_no_reserved_rune)

lemma ValidString_json_string: "ValidString s \<Longrightarrow> json_string s = s"
proof (induction s rule: ValidString.induct)
  case 1
  then show ?case by simp
next
  case (2 c cs)
  show ?case
  proof (cases "rune_size (c # cs) = 0")
    case True
    with 2 show ?thesis by simp
  next
    case False
    with 2 have "json_string (drop (rune_size (c # cs)) (c # cs)) = drop (rune_size (c # cs)) (c # cs)"
      by simp
    with False show ?thesis
      by (simp del: rune_size.simps)
  qed
qed

lemma plain_member: "plain s \<Longrightarrow> c \<in> set s \<Longrightarrow> plain [c]"
  by (simp add: plain_def list_all_iff)

lemma hex_digit_plain: "n < 16 \<Longrightarrow> plain [hex_digit n]"
proof -
  assume "n < 16"
  then have "hex_digit n \<in> set ''0123456789abcdef''"
    unfolding hex_digit_def by (intro nth_mem) simp
  moreover have "plain ''0123456789abcdef''" by simp
  ultimately show ?thesis by (rule plain_member [rotated])
qed

lemma EncodeToString_plain: "list_all (\<lambda>b. b < 256) bs \<Longrightarrow> plain (EncodeToString bs)"
proof (induction bs)
  case Nil
  then show ?case by (simp add: EncodeToString_def)
next
  case (Cons b bs)
  then have b: "b < 256" and r: "plain (EncodeToString bs)" by simp_all
  from b have "b div 16 < 16" and "b mod 16 < 16" by simp_all
  then have "plain [hex_digit (b div 16)]" "plain [hex_digit (b mod 16)]"
    by (simp_all only: hex_digit_plain)
  with r show ?case by (simp add: EncodeToString_def)
qed

lemma md5_sum_bytes: "list_all (\<lambda>b. b < 256) (md5_sum bs)"
  by (simp add: md5_sum_def le_bytes_def split: prod.splits)

lemma length_md5_sum: "length (md5_sum bs) = 16"
  by (simp add: md5_sum_def le_bytes_def split: prod.splits)

lemma length_EncodeToString: "length (EncodeToString bs) = 2 * length bs"
  by (induction bs) (simp_all add: EncodeToString_def)

lemma StringToMD5_plain: "plain (StringToMD5 v)"
  by (simp add: StringToMD5_def EncodeToString_plain md5_sum_bytes)

lemma length_StringToMD5: "length (StringToMD5 v) = 32"
  by (simp add: StringToMD5_def length_EncodeToString length_md5_sum)

lemma digit_char_plain: "d < 10 \<Longrightarrow> plain [digit_char d]"
proof -
  assume "d < 10"
  then have "digit_char d \<in> set ''0123456789''"
    unfolding digit_char_def by (intro nth_mem) simp
  moreover have "plain ''0123456789''" by simp
  ultimately show ?thesis by (rule plain_member [rotated])
qed

lemma digits10_plain: "plain (digits10 n)"
proof (induction n rule: digits10.induct)
  case (1 n)
  show ?case
  proof (cases "n < 10")
    case True
    then show ?thesis by (subst digits10.simps) (simp add: digit_char_plain del: plain_Cons)
  next
    case False
    have "n mod 10 < 10" by simp
    then have "plain [digit_char (n mod 10)]" by (rule digit_char_plain)
    with False 1 show ?thesis by (subst digits10.simps) (simp del: plain_Cons)
  qed
qed

lemma Itoa_plain: "plain (Itoa i)"
  by (simp add: Itoa_def digits10_plain)

lemma matches_triple:
  "matches [(''owner'', owner), (''student_id'', sid), (''hash_value'', h)] d =
     (case d of MetaInfoJSON m \<Rightarrow> Owner m = owner \<and> MetaInfo.StudentID m = sid \<and> MetaInfo.HashValue m = h
      | _ \<Rightarrow> False)"
  by (cases d) (simp_all add: matches_def)

lemma IsRecordExists_eq: "IsRecordExists st owner sid h = (meta_exists st owner sid h, None)"
  by (auto simp add: IsRecordExists_def GetQueryResult_def meta_exists_def matches_triple
      filter_empty_conv list_ex_iff split: document.splits)

lemma CreateCompositeKey_heiID:
  "plain sid \<Longrightarrow> plain h \<Longrightarrow>
   CreateCompositeKey ''heiID'' [owner, sid, h] =
     (if validateCompositeKeyAttribute owner then Inr (composite_key owner sid h)
      else Inl InvalidKeyAttribute)"
  by (simp add: CreateCompositeKey_def composite_key_def plain_validate)

lemma Marshal_meta_entry:
  "ValidString owner \<Longrightarrow> plain sid \<Longrightarrow> plain relation \<Longrightarrow> plain h \<Longrightarrow>
   Marshal_MetaInfo \<lparr>MetaInfo.Owner = owner, MetaInfo.StudentID = sid, MetaInfo.Relation = relation,
      MetaInfo.HashValue = h\<rparr> = Inr (MetaInfoJSON (meta_entry owner sid relation h))"
  by (simp add: Marshal_MetaInfo_def meta_entry_def plain_json_string ValidString_json_string)

lemma StringToMD5_not_Nil: "StringToMD5 v \<noteq> []"
  using length_StringToMD5 [of v] by auto

lemma StructToMD5_plain: "plain (StructToMD5 fv s)"
  by (simp add: StructToMD5_def StringToMD5_plain)

lemma StructToMD5_not_Nil: "StructToMD5 fv s \<noteq> []"
  by (simp add: StructToMD5_def StringToMD5_not_Nil)

lemmas insert_unfold = IsRecordExists_eq Let_def PutState_def
      StructToMD5_not_Nil CreateCompositeKey_heiID Itoa_plain StructToMD5_plain
      Marshal_meta_entry validateCompositeKeyAttribute_def composite_key_def insert_outcome_def

lemma InsertNewRecordStudentInfo_eq:
  "InsertNewRecordStudentInfo fv st owner faculty department studentId surname name nationalid
           registrationdate registrationtype programtype class semester =
     (let r = new_StudentInfo faculty department studentId surname name nationalid
                registrationdate registrationtype programtype class semester;
          d = StructToMD5 fv (SI r)
      in insert_outcome st owner (Itoa studentId) ''StudentInfo'' d
           (Marshal_StudentInfo (r\<lparr>StudentInfo.HashValue := d\<rparr>)))"
  by (auto simp add: InsertNewRecordStudentInfo_def new_StudentInfo_def insert_unfold split: sum.splits)

lemma InsertNewRecordTakenCourse_eq:
  "InsertNewRecordTakenCourse fv st owner studentId courseCode grade point takenSemester =
     (let r = new_TakenCourse studentId courseCode grade point takenSemester;
          d = StructToMD5 fv (TC r)
      in insert_outcome st owner (Itoa studentId) ''TakenCourse'' d
           (Marshal_TakenCourse (r\<lparr>TakenCourse.HashValue := d\<rparr>)))"
  by (auto simp add: InsertNewRecordTakenCourse_def new_TakenCourse_def insert_unfold split: sum.splits)

lemma InsertNewRecordCourseInfo_eq:
  "InsertNewRecordCourseInfo fv st owner studentnumber courseCode courseName courseType ects credit =
     (let r = new_CourseInfo courseCode courseName courseType ects credit;
          d = StructToMD5 fv (CI r)
      in insert_outcome st owner (Itoa studentnumber) ''CourseInfo'' d
           (Marshal_CourseInfo (r\<lparr>CourseInfo.HashValue := d\<rparr>)))"
  by (auto simp add: InsertNewRecordCourseInfo_def new_CourseInfo_def insert_unfold split: sum.splits)


lemma composite_key_not_Nil [simp]: "composite_key owner sid h \<noteq> []"
  by (simp add: composite_key_def)

lemma plain_not_composite_key: "plain k \<Longrightarrow> k \<noteq> composite_key owner sid h"
  by (auto simp add: composite_key_def)

lemma composite_key_not_plain: "plain k \<Longrightarrow> composite_key owner sid h \<noteq> k"
  by (auto simp add: composite_key_def)

lemma composite_key_digest_eq [simp]:
  "(composite_key owner sid h = composite_key owner sid h') = (h = h')"
  by (simp add: composite_key_def)


lemmas fmt_eval = Itoa_def digits10.simps digit_char_def StructToString_def

lemma Itoa_seed: "Itoa 190908809 = ''190908809''"
  by (simp add: fmt_eval)

lemma meta_entry_sel [simp]:
  "Owner (meta_entry owner sid relation h) = owner"
  "MetaInfo.StudentID (meta_entry owner sid relation h) = sid"
  "Relation (meta_entry owner sid relation h) = relation"
  "MetaInfo.HashValue (meta_entry owner sid relation h) = h"
  by (simp_all add: meta_entry_def)

lemma seed_fv_values:
  "seed_fv 0x41A00000 = ''20''" "seed_fv 0x41A80000 = ''21''" "seed_fv 0x40C00000 = ''6''"
  "seed_fv 0x41973333 = ''18.9''" "seed_fv 0x41000000 = ''8''" "seed_fv 0x40800000 = ''4''"
  "seed_fv 0x41900000 = ''18''"
  by (simp_all add: seed_fv_def)

lemma example_digests:
  "StructToMD5 fv (SI (new_StudentInfo ''Faculty of Engineering and Architecture'' ''Department of Computer Engineering'' 190908809 ''Selvi'' ''Osman'' ''44262495576'' ''02.09.2022'' ''Major / OSYM'' ''Undergraduate'' 1 1)) =
     ''2051a462ec54e1bfcb825cebe0af1e40''"
  "StructToMD5 seed_fv (TC (new_TakenCourse 190908809 ''COMP1001'' ''AA'' 0x41A00000 1)) =
     ''48c4c683034af0c0a03fbda1d9a1f7cd''"
  "StructToMD5 fv (CI (new_CourseInfo ''COMP1001'' ''Fundamentals of Computer Engineering'' ''C'' 5 3)) =
     ''4f8ba6da0cd2004d5b66eb43ab883cbd''"
  by (simp_all add: StructToMD5_def fmt_eval new_StudentInfo_def new_TakenCourse_def
        new_CourseInfo_def seed_fv_values md5_student md5_taken_COMP1001 md5_course_COMP1001)

lemma three_metas_exist:
  "meta_exists three_metas ''Fenerbahce University'' ''190908809'' ''2051a462ec54e1bfcb825cebe0af1e40''"
  "meta_exists three_metas ''Fenerbahce University'' ''190908809'' ''48c4c683034af0c0a03fbda1d9a1f7cd''"
  "meta_exists three_metas ''Fenerbahce University'' ''190908809'' ''4f8ba6da0cd2004d5b66eb43ab883cbd''"
  by (simp_all add: meta_exists_def three_metas_def)


section \<open>Queries and the transcript join\<close>

lemma matches_meta2:
  "matches [(''owner'', h), (''relation'', r)] (MetaInfoJSON m) = (Owner m = h \<and> Relation m = r)"
  by (simp add: matches_def)

lemma matches_meta3:
  "matches [(''owner'', h), (''relation'', r), (''student_id'', s)] (MetaInfoJSON m) =
     (Owner m = h \<and> Relation m = r \<and> MetaInfo.StudentID m = s)"
  by (simp add: matches_def)

lemma matches_owner_data:
  "matches ((''owner'', h) # sel) (StudentInfoJSON s) = False"
  "matches ((''owner'', h) # sel) (TakenCourseJSON t) = False"
  "matches ((''owner'', h) # sel) (CourseInfoJSON c) = False"
  by (simp_all add: matches_def)

lemma composite_key_Cons:
  "c \<noteq> CHR 0x00 \<Longrightarrow> (c # cs = composite_key owner sid h) = False"
  "c \<noteq> CHR 0x00 \<Longrightarrow> (composite_key owner sid h = c # cs) = False"
  by (auto simp add: composite_key_def)

lemma combine_infos_eq:
  "CourseCode new = TakenCourse.CourseCode course \<Longrightarrow> Grade new = TakenCourse.Grade course \<Longrightarrow>
   Point new = TakenCourse.Point course \<Longrightarrow> TakenSemester new = TakenCourse.TakenSemester course \<Longrightarrow>
   combine_infos course infos new acc =
     acc @ map (combined_record course)
             (filter (\<lambda>info. TakenCourse.CourseCode course = CourseInfo.CourseCode info) infos)"
proof (induction infos arbitrary: new acc)
  case Nil
  then show ?case by simp
next
  case (Cons info infos)
  show ?case
  proof (cases "TakenCourse.CourseCode course = CourseInfo.CourseCode info")
    case True
    let ?new = "new\<lparr>CourseName := CourseInfo.CourseName info, CourseType := CourseInfo.CourseType info,
                   ECTS := CourseInfo.ECTS info, Credit := CourseInfo.Credit info\<rparr>"
    have new: "?new = combined_record course info"
      using Cons.prems by (cases new) (simp add: combined_record_def)
    have "combine_infos course infos ?new (acc @ [?new]) =
            (acc @ [?new]) @ map (combined_record course)
             (filter (\<lambda>info. TakenCourse.CourseCode course = CourseInfo.CourseCode info) infos)"
      using Cons.prems by (intro Cons.IH) simp_all
    with True new show ?thesis by (simp add: Let_def)
  next
    case False
    with Cons show ?thesis by simp
  qed
qed

lemma combine_courses_eq:
  "combine_courses coursesTaken infoCourses acc = acc @ join_courses coursesTaken infoCourses"
proof (induction coursesTaken arbitrary: acc)
  case Nil
  then show ?case by (simp add: join_courses_def)
next
  case (Cons course coursesTaken)
  show ?case
    by (simp add: Cons.IH combine_infos_eq zero_CombinedCourseRecords_def join_courses_def)
qed

lemma GetStudentTranscript_eq:
  "GetStudentTranscript st hei studentID =
     (case Get_Student_StudentInfo st hei studentID of
        Inl err \<Rightarrow> Inl (TranscriptFailed err)
      | Inr infoStudent \<Rightarrow>
         (case Get_Student_CourseInfos st hei studentID of
            Inl err \<Rightarrow> Inl (TranscriptFailed err)
          | Inr infoCourses \<Rightarrow>
             (case Get_Student_TakenCourses st hei studentID of
                Inl err \<Rightarrow> Inl (TranscriptFailed err)
              | Inr coursesTaken \<Rightarrow>
                 (case infoStudent of
                    None \<Rightarrow> Inl NilDereference
                  | Some s \<Rightarrow> Inr \<lparr>InfoStudent = s, Courses = join_courses coursesTaken infoCourses\<rparr>))))"
  by (simp add: GetStudentTranscript_def combine_courses_eq Let_def split: sum.splits option.splits)

lemma collect_HashValues_length:
  "collect_HashValues rows acc = Inr hs \<Longrightarrow> length hs = length acc + length rows"
  by (induction rows arbitrary: acc) (auto split: sum.splits)

lemma collect_MetaInfos_length:
  "collect_MetaInfos rows acc = Inr ms \<Longrightarrow> length ms = length acc + length rows"
  by (induction rows arbitrary: acc) (auto split: sum.splits)

lemma fetch_CourseInfos_length:
  "fetch_CourseInfos st hs acc = Inr rs \<Longrightarrow> length rs = length acc + length hs"
  by (induction hs arbitrary: acc) (auto split: sum.splits)

lemma fetch_TakenCourses_length:
  "fetch_TakenCourses st hs acc = Inr rs \<Longrightarrow> length rs = length acc + length hs"
  by (induction hs arbitrary: acc) (auto split: sum.splits)

lemma fetch_HEI_TakenCourses_length:
  "fetch_HEI_TakenCourses st ms acc = Inr rs \<Longrightarrow> length rs = length acc + length ms"
  by (induction ms arbitrary: acc) (auto split: sum.splits)

lemma fetch_HEI_StudentInfos_length:
  "fetch_HEI_StudentInfos st ms acc = Inr rs \<Longrightarrow> length rs = length acc + length ms"
  by (induction ms arbitrary: acc) (auto split: sum.splits)

lemma fetch_HEI_CourseInfos_length:
  "fetch_HEI_CourseInfos st ms acc = Inr rs \<Longrightarrow> length rs = length acc + length ms"
  by (induction ms arbitrary: acc) (auto split: sum.splits)

lemmas listing_defs = Get_Student_StudentInfo_HashValues_def Get_Student_CourseInfos_HashValues_def
  Get_Student_TakenCourses_HashValues_def Get_HEI_MetaInfos_TakenCourses_def
  Get_HEI_MetaInfos_StudentInfos_def Get_HEI_MetaInfos_CourseInfos_def
  Get_Student_StudentInfo_def Get_Student_CourseInfos_def Get_Student_TakenCourses_def
  Get_HEI_TakenCourses_def Get_HEI_StudentInfos_def Get_HEI_CourseInfos_def

lemma HashValues_not_empty:
  "Get_Student_StudentInfo_HashValues st hei studentID \<noteq> Inr []"
  "Get_Student_CourseInfos_HashValues st hei studentID \<noteq> Inr []"
  "Get_Student_TakenCourses_HashValues st hei studentID \<noteq> Inr []"
  by (auto simp add: listing_defs GetQueryResult_def dest!: collect_HashValues_length)

lemma MetaInfos_not_empty:
  "Get_HEI_MetaInfos_TakenCourses st hei \<noteq> Inr []"
  "Get_HEI_MetaInfos_StudentInfos st hei \<noteq> Inr []"
  "Get_HEI_MetaInfos_CourseInfos st hei \<noteq> Inr []"
  by (auto simp add: listing_defs GetQueryResult_def dest!: collect_MetaInfos_length)

lemma Student_lists_not_empty:
  "Get_Student_CourseInfos st hei studentID \<noteq> Inr []"
  "Get_Student_TakenCourses st hei studentID \<noteq> Inr []"
proof -
  show "Get_Student_CourseInfos st hei studentID \<noteq> Inr []"
    using HashValues_not_empty(2) [of st hei studentID]
    by (auto simp add: Get_Student_CourseInfos_def split: sum.splits dest!: fetch_CourseInfos_length)
  show "Get_Student_TakenCourses st hei studentID \<noteq> Inr []"
    using HashValues_not_empty(3) [of st hei studentID]
    by (auto simp add: Get_Student_TakenCourses_def split: sum.splits dest!: fetch_TakenCourses_length)
qed

lemma HEI_lists_not_empty:
  "Get_HEI_TakenCourses st hei \<noteq> Inr []"
  "Get_HEI_StudentInfos st hei \<noteq> Inr []"
  "Get_HEI_CourseInfos st hei \<noteq> Inr []"
proof -
  show "Get_HEI_TakenCourses st hei \<noteq> Inr []"
    using MetaInfos_not_empty(1) [of st hei]
    by (auto simp add: Get_HEI_TakenCourses_def split: sum.splits dest!: fetch_HEI_TakenCourses_length)
  show "Get_HEI_StudentInfos st hei \<noteq> Inr []"
    using MetaInfos_not_empty(2) [of st hei]
    by (auto simp add: Get_HEI_StudentInfos_def split: sum.splits dest!: fetch_HEI_StudentInfos_length)
  show "Get_HEI_CourseInfos st hei \<noteq> Inr []"
    using MetaInfos_not_empty(3) [of st hei]
    by (auto simp add: Get_HEI_CourseInfos_def split: sum.splits dest!: fetch_HEI_CourseInfos_length)
qed

lemma fetch_StudentInfo_last:
  "hashValues \<noteq> [] \<Longrightarrow> fetch_StudentInfo st hashValues r = Inr r' \<Longrightarrow>
   \<exists>x. Get_StudentInfo_ByHashValue st (last hashValues) = Inr x \<and> r' = Some x"
proof (induction hashValues arbitrary: r)
  case Nil
  then show ?case by simp
next
  case (Cons h hs)
  then show ?case
    by (cases hs) (auto split: sum.splits)
qed

lemma fetch_StudentInfo_all:
  "hashValues \<noteq> [] \<Longrightarrow> \<forall>h \<in> set hashValues. \<exists>x. Get_StudentInfo_ByHashValue st h = Inr x \<Longrightarrow>
   fetch_StudentInfo st hashValues r = map_sum id Some (Get_StudentInfo_ByHashValue st (last hashValues))"
proof (induction hashValues arbitrary: r)
  case Nil
  then show ?case by simp
next
  case (Cons h hs)
  then show ?case
    by (cases hs) (auto split: sum.splits)
qed

lemma fetch_StudentInfo_None:
  "fetch_StudentInfo st hashValues r = Inr None \<Longrightarrow> hashValues = []"
  using fetch_StudentInfo_last [of hashValues st r None] by auto

lemma Get_Student_StudentInfo_not_None:
  "Get_Student_StudentInfo st hei studentID \<noteq> Inr None"
  using HashValues_not_empty(1) [of st hei studentID]
  by (auto simp add: Get_Student_StudentInfo_def split: sum.splits dest!: fetch_StudentInfo_None)


lemmas example_eval = GetQueryResult_def matches_meta2 matches_meta3 matches_owner_data
  GetState_def composite_key_Cons listing_defs Get_StudentInfo_ByHashValue_def
  Get_CourseInfo_ByHashValue_def Get_TakenCourse_ByHashValue_def

lemma example_HashValues:
  "Get_Student_StudentInfo_HashValues example_state ''Fenerbahce University'' ''190908809'' =
     Inr [''2051a462ec54e1bfcb825cebe0af1e40'', ''700d6784c1d14cef3e3fe1e6ab273e38'']"
  by (simp add: example_eval example_state_def)

lemma example_ByHashValue:
  "Get_StudentInfo_ByHashValue example_state ''2051a462ec54e1bfcb825cebe0af1e40'' =
     Inr (ex_student_A\<lparr>StudentInfo.HashValue := ''2051a462ec54e1bfcb825cebe0af1e40''\<rparr>)"
  "Get_StudentInfo_ByHashValue example_state ''700d6784c1d14cef3e3fe1e6ab273e38'' =
     Inr (ex_student_B\<lparr>StudentInfo.HashValue := ''700d6784c1d14cef3e3fe1e6ab273e38''\<rparr>)"
  by (simp_all add: example_eval example_state_def)

lemma example_StudentInfo:
  "Get_Student_StudentInfo example_state ''Fenerbahce University'' ''190908809'' =
     Inr (Some (ex_student_B\<lparr>StudentInfo.HashValue := ''700d6784c1d14cef3e3fe1e6ab273e38''\<rparr>))"
  by (simp add: example_eval example_state_def)

lemma example_CourseInfos:
  "Get_Student_CourseInfos example_state ''Fenerbahce University'' ''190908809'' =
     Inr [ex_course_1\<lparr>CourseInfo.HashValue := ''4f8ba6da0cd2004d5b66eb43ab883cbd''\<rparr>]"
  by (simp add: example_eval example_state_def)

lemma example_TakenCourses:
  "Get_Student_TakenCourses example_state ''Fenerbahce University'' ''190908809'' =
     Inr [ex_taken_1\<lparr>TakenCourse.HashValue := ''48c4c683034af0c0a03fbda1d9a1f7cd''\<rparr>,
          ex_taken_2\<lparr>TakenCourse.HashValue := ''5fb09b8d68832b5ee32a9fc022cb0655''\<rparr>]"
  by (simp add: example_eval example_state_def)

lemma example_join:
  "join_courses [ex_taken_1\<lparr>TakenCourse.HashValue := h1\<rparr>, ex_taken_2\<lparr>TakenCourse.HashValue := h2\<rparr>]
     [ex_course_1\<lparr>CourseInfo.HashValue := h3\<rparr>] =
   [\<lparr>CourseCode = ''COMP1001'', CourseName = ''Fundamentals of Computer Engineering'',
     CourseType = ''C'', ECTS = 5, Credit = 3, Grade = ''AA'', Point = 0x41A00000,
     TakenSemester = 1\<rparr>]"
  by (simp add: join_courses_def combined_record_def ex_taken_1_def ex_taken_2_def ex_course_1_def
        new_TakenCourse_def new_CourseInfo_def)

lemma student_only_queries:
  "GetQueryResult student_only
     [(''owner'', ''Fenerbahce University''), (''relation'', ''TakenCourse''), (''student_id'', ''190908809'')] = Inr []"
  "GetQueryResult student_only
     [(''owner'', ''Fenerbahce University''), (''relation'', ''CourseInfo''), (''student_id'', ''190908809'')] = Inr []"
  "GetQueryResult student_only
     [(''owner'', ''Fenerbahce University''), (''relation'', ''StudentInfo''), (''student_id'', ''190908808'')] = Inr []"
  "GetQueryResult student_only [(''owner'', ''Fenerbahce University''), (''relation'', ''TakenCourse'')] = Inr []"
  "GetQueryResult student_only [(''owner'', ''Fenerbahce University''), (''relation'', ''CourseInfo'')] = Inr []"
  "GetQueryResult student_only [(''owner'', ''Fenerbahce''), (''relation'', ''StudentInfo'')] = Inr []"
  by (simp_all add: example_eval student_only_def)

lemma student_only_StudentInfo:
  "Get_Student_StudentInfo student_only ''Fenerbahce University'' ''190908809'' =
     Inr (Some (ex_student_A\<lparr>StudentInfo.HashValue := ''2051a462ec54e1bfcb825cebe0af1e40''\<rparr>))"
  by (simp add: example_eval student_only_def)

section \<open>The claims\<close>

subsection \<open>C5: a rejected duplicate writes nothing\<close>

lemma insert_outcome_exists:
  "meta_exists st owner sid d \<Longrightarrow>
   insert_outcome st owner sid relation d marshalled = ((False, Some RecordExists), st)"
  by (simp add: insert_outcome_def)

lemma insert_outcome_RecordExists:
  "snd (fst (insert_outcome st owner sid relation d marshalled)) = Some RecordExists \<Longrightarrow>
   snd (insert_outcome st owner sid relation d marshalled) = st"
  by (auto simp add: insert_outcome_def split: sum.splits if_splits)



subsection \<open>C6: the transcript join\<close>

text \<open>
  C6. When \<^verbatim>\<open>GetStudentTranscript\<close> returns a transcript, its course list is the join of the
  fetched taken courses with the fetched course infos: for every taken course, in the order
  the taken courses were returned, one entry for every course info with an equal course
  code. Once the three fetches succeed the transcript is returned, so a taken course without
  a matching course info raises no error; it contributes no entry, and every other taken
  course contributes its entries between those of the courses before and after it.
\<close>

theorem C6_transcript_join:
  "(GetStudentTranscript st hei studentID = Inr transcript \<longrightarrow>
      (\<exists>infoCourses coursesTaken.
          Get_Student_CourseInfos st hei studentID = Inr infoCourses
        \<and> Get_Student_TakenCourses st hei studentID = Inr coursesTaken
        \<and> Courses transcript = join_courses coursesTaken infoCourses))
   \<and> (Get_Student_StudentInfo st hei studentID = Inr (Some s)
        \<and> Get_Student_CourseInfos st hei studentID = Inr infoCourses
        \<and> Get_Student_TakenCourses st hei studentID = Inr coursesTaken \<longrightarrow>
      GetStudentTranscript st hei studentID =
        Inr \<lparr>InfoStudent = s, Courses = join_courses coursesTaken infoCourses\<rparr>)
   \<and> join_courses (before @ [course] @ after) infoCourses =
        join_courses before infoCourses
        @ map (combined_record course)
            (filter (\<lambda>info. TakenCourse.CourseCode course = CourseInfo.CourseCode info) infoCourses)
        @ join_courses after infoCourses
   \<and> ((\<forall>info \<in> set infoCourses. TakenCourse.CourseCode course \<noteq> CourseInfo.CourseCode info) \<longrightarrow>
        join_courses (before @ [course] @ after) infoCourses =
        join_courses before infoCourses @ join_courses after infoCourses)"
proof (intro conjI impI)
  assume "GetStudentTranscript st hei studentID = Inr transcript"
  then show "\<exists>infoCourses coursesTaken.
          Get_Student_CourseInfos st hei studentID = Inr infoCourses
        \<and> Get_Student_TakenCourses st hei studentID = Inr coursesTaken
        \<and> Courses transcript = join_courses coursesTaken infoCourses"
    by (auto simp add: GetStudentTranscript_eq split: sum.splits option.splits)
next
  assume "Get_Student_StudentInfo st hei studentID = Inr (Some s)
        \<and> Get_Student_CourseInfos st hei studentID = Inr infoCourses
        \<and> Get_Student_TakenCourses st hei studentID = Inr coursesTaken"
  then show "GetStudentTranscript st hei studentID =
        Inr \<lparr>InfoStudent = s, Courses = join_courses coursesTaken infoCourses\<rparr>"
    by (simp add: GetStudentTranscript_eq)
next
  show "join_courses (before @ [course] @ after) infoCourses =
        join_courses before infoCourses
        @ map (combined_record course)
            (filter (\<lambda>info. TakenCourse.CourseCode course = CourseInfo.CourseCode info) infoCourses)
        @ join_courses after infoCourses"
    by (simp add: join_courses_def)
next
  assume "\<forall>info \<in> set infoCourses. TakenCourse.CourseCode course \<noteq> CourseInfo.CourseCode info"
  then have "filter (\<lambda>info. TakenCourse.CourseCode course = CourseInfo.CourseCode info) infoCourses = []"
    by (simp add: filter_empty_conv)
  then show "join_courses (before @ [course] @ after) infoCourses =
        join_courses before infoCourses @ join_courses after infoCourses"
    by (simp add: join_courses_def)
qed

theorem C6_transcript_join_witness:
  "GetStudentTranscript example_state ''Fenerbahce University'' ''190908809'' =
     Inr \<lparr>InfoStudent = ex_student_B\<lparr>StudentInfo.HashValue := ''700d6784c1d14cef3e3fe1e6ab273e38''\<rparr>,
          Courses = [\<lparr>CourseCode = ''COMP1001'', CourseName = ''Fundamentals of Computer Engineering'',
                      CourseType = ''C'', ECTS = 5, Credit = 3, Grade = ''AA'', Point = 0x41A00000,
                      TakenSemester = 1\<rparr>]\<rparr>
   \<and> Get_Student_TakenCourses example_state ''Fenerbahce University'' ''190908809'' =
     Inr [ex_taken_1\<lparr>TakenCourse.HashValue := ''48c4c683034af0c0a03fbda1d9a1f7cd''\<rparr>,
          ex_taken_2\<lparr>TakenCourse.HashValue := ''5fb09b8d68832b5ee32a9fc022cb0655''\<rparr>]
   \<and> TakenCourse.CourseCode ex_taken_2 = ''COMP2004''
   \<and> join_courses ([ex_taken_1] @ [ex_taken_2] @ []) [ex_course_1] =
       join_courses [ex_taken_1] [ex_course_1] @ join_courses [] [ex_course_1]"
proof -
  have t: "GetStudentTranscript example_state ''Fenerbahce University'' ''190908809'' =
     Inr \<lparr>InfoStudent = ex_student_B\<lparr>StudentInfo.HashValue := ''700d6784c1d14cef3e3fe1e6ab273e38''\<rparr>,
          Courses = join_courses
            [ex_taken_1\<lparr>TakenCourse.HashValue := ''48c4c683034af0c0a03fbda1d9a1f7cd''\<rparr>,
             ex_taken_2\<lparr>TakenCourse.HashValue := ''5fb09b8d68832b5ee32a9fc022cb0655''\<rparr>]
            [ex_course_1\<lparr>CourseInfo.HashValue := ''4f8ba6da0cd2004d5b66eb43ab883cbd''\<rparr>]\<rparr>"
    by (rule C6_transcript_join [THEN conjunct2, THEN conjunct1, THEN mp])
       (simp add: example_StudentInfo example_CourseInfos example_TakenCourses)
  have c: "TakenCourse.CourseCode ex_taken_2 = ''COMP2004''"
    by (simp add: ex_taken_2_def new_TakenCourse_def)
  have c': "CourseInfo.CourseCode ex_course_1 = ''COMP1001''"
    by (simp add: ex_course_1_def new_CourseInfo_def)
  have j: "join_courses ([ex_taken_1] @ [ex_taken_2] @ []) [ex_course_1] =
       join_courses [ex_taken_1] [ex_course_1] @ join_courses [] [ex_course_1]"
    by (rule C6_transcript_join [THEN conjunct2, THEN conjunct2, THEN conjunct2, THEN mp])
       (simp add: c c')
  show ?thesis
    by (intro conjI) (simp only: t example_join, rule example_TakenCourses, rule c, rule j)
qed

subsection \<open>C7: an empty selector result is an error\<close>

text \<open>
  C7. When the selector query of a listing operation matches no entry, the operation
  fails with the error "no record were found relevant to the given arguments", wrapped by
  its caller in "failed to read from worldstate db": this holds for the three listings of a
  student and the three of an institution. None of these operations ever returns an empty
  list (or, for the student info, a nil record) as a success.
\<close>

theorem C7_empty_selector_is_an_error:
  "(GetQueryResult st [(''owner'', hei), (''relation'', ''StudentInfo''), (''student_id'', studentID)] = Inr [] \<longrightarrow>
      Get_Student_StudentInfo_HashValues st hei studentID = Inl NoRecordFound
    \<and> Get_Student_StudentInfo st hei studentID = Inl (ReadFailed NoRecordFound))
 \<and> (GetQueryResult st [(''owner'', hei), (''relation'', ''CourseInfo''), (''student_id'', studentID)] = Inr [] \<longrightarrow>
      Get_Student_CourseInfos_HashValues st hei studentID = Inl NoRecordFound
    \<and> Get_Student_CourseInfos st hei studentID = Inl (ReadFailed NoRecordFound))
 \<and> (GetQueryResult st [(''owner'', hei), (''relation'', ''TakenCourse''), (''student_id'', studentID)] = Inr [] \<longrightarrow>
      Get_Student_TakenCourses_HashValues st hei studentID = Inl NoRecordFound
    \<and> Get_Student_TakenCourses st hei studentID = Inl (ReadFailed NoRecordFound))
 \<and> (GetQueryResult st [(''owner'', hei), (''relation'', ''TakenCourse'')] = Inr [] \<longrightarrow>
      Get_HEI_MetaInfos_TakenCourses st hei = Inl NoRecordFound
    \<and> Get_HEI_TakenCourses st hei = Inl (ReadFailed NoRecordFound))
 \<and> (GetQueryResult st [(''owner'', hei), (''relation'', ''StudentInfo'')] = Inr [] \<longrightarrow>
      Get_HEI_MetaInfos_StudentInfos st hei = Inl NoRecordFound
    \<and> Get_HEI_StudentInfos st hei = Inl (ReadFailed NoRecordFound))
 \<and> (GetQueryResult st [(''owner'', hei), (''relation'', ''CourseInfo'')] = Inr [] \<longrightarrow>
      Get_HEI_MetaInfos_CourseInfos st hei = Inl NoRecordFound
    \<and> Get_HEI_CourseInfos st hei = Inl (ReadFailed NoRecordFound))
 \<and> Get_Student_StudentInfo_HashValues st hei studentID \<noteq> Inr []
 \<and> Get_Student_CourseInfos_HashValues st hei studentID \<noteq> Inr []
 \<and> Get_Student_TakenCourses_HashValues st hei studentID \<noteq> Inr []
 \<and> Get_Student_StudentInfo st hei studentID \<noteq> Inr None
 \<and> Get_Student_CourseInfos st hei studentID \<noteq> Inr []
 \<and> Get_Student_TakenCourses st hei studentID \<noteq> Inr []
 \<and> Get_HEI_MetaInfos_TakenCourses st hei \<noteq> Inr []
 \<and> Get_HEI_MetaInfos_StudentInfos st hei \<noteq> Inr []
 \<and> Get_HEI_MetaInfos_CourseInfos st hei \<noteq> Inr []
 \<and> Get_HEI_TakenCourses st hei \<noteq> Inr []
 \<and> Get_HEI_StudentInfos st hei \<noteq> Inr []
 \<and> Get_HEI_CourseInfos st hei \<noteq> Inr []"
  by (simp add: HashValues_not_empty MetaInfos_not_empty Student_lists_not_empty
        HEI_lists_not_empty Get_Student_StudentInfo_not_None)
     (simp add: listing_defs)

theorem C7_empty_selector_is_an_error_witness:
  "GetQueryResult student_only
     [(''owner'', ''Fenerbahce University''), (''relation'', ''TakenCourse''), (''student_id'', ''190908809'')] = Inr []
   \<and> Get_Student_TakenCourses_HashValues student_only ''Fenerbahce University'' ''190908809'' = Inl NoRecordFound
   \<and> Get_Student_TakenCourses student_only ''Fenerbahce University'' ''190908809'' = Inl (ReadFailed NoRecordFound)
   \<and> Get_Student_CourseInfos student_only ''Fenerbahce University'' ''190908809'' = Inl (ReadFailed NoRecordFound)
   \<and> Get_HEI_TakenCourses student_only ''Fenerbahce University'' = Inl (ReadFailed NoRecordFound)
   \<and> Get_HEI_CourseInfos student_only ''Fenerbahce University'' = Inl (ReadFailed NoRecordFound)"
  using C7_empty_selector_is_an_error [of student_only "''Fenerbahce University''" "''190908809''"]
  by (simp add: student_only_queries)

subsection \<open>C8: the last digest wins\<close>

text \<open>
  C8. When the selector of \<^verbatim>\<open>Get_Student_StudentInfo\<close> yields the digests \<open>hashValues\<close> and
  each of them dereferences, the operation returns the record of the last digest in
  iteration order; and whenever it returns a record at all, that record is the one
  dereferenced from the last digest. (A digest that does not dereference ends the loop
  with an error.)
\<close>

theorem C8_last_digest_wins:
  "(Get_Student_StudentInfo_HashValues st hei studentID = Inr hashValues
      \<and> (\<forall>h \<in> set hashValues. \<exists>x. Get_StudentInfo_ByHashValue st h = Inr x) \<longrightarrow>
    hashValues \<noteq> []
      \<and> Get_Student_StudentInfo st hei studentID =
          map_sum id Some (Get_StudentInfo_ByHashValue st (last hashValues)))
   \<and> (Get_Student_StudentInfo st hei studentID = Inr r \<longrightarrow>
        (\<exists>hashValues x. Get_Student_StudentInfo_HashValues st hei studentID = Inr hashValues
           \<and> hashValues \<noteq> []
           \<and> Get_StudentInfo_ByHashValue st (last hashValues) = Inr x \<and> r = Some x))"
proof (intro conjI impI)
  assume a: "Get_Student_StudentInfo_HashValues st hei studentID = Inr hashValues
      \<and> (\<forall>h \<in> set hashValues. \<exists>x. Get_StudentInfo_ByHashValue st h = Inr x)"
  with HashValues_not_empty(1) [of st hei studentID] show "hashValues \<noteq> []"
    by auto
  with a show "Get_Student_StudentInfo st hei studentID =
          map_sum id Some (Get_StudentInfo_ByHashValue st (last hashValues))"
    by (simp add: Get_Student_StudentInfo_def fetch_StudentInfo_all)
next
  assume r: "Get_Student_StudentInfo st hei studentID = Inr r"
  then obtain hashValues where
    h: "Get_Student_StudentInfo_HashValues st hei studentID = Inr hashValues"
    and f: "fetch_StudentInfo st hashValues None = Inr r"
    by (auto simp add: Get_Student_StudentInfo_def split: sum.splits)
  from h HashValues_not_empty(1) [of st hei studentID] have ne: "hashValues \<noteq> []"
    by auto
  from fetch_StudentInfo_last [OF ne f] h ne
  show "\<exists>hashValues x. Get_Student_StudentInfo_HashValues st hei studentID = Inr hashValues
           \<and> hashValues \<noteq> []
           \<and> Get_StudentInfo_ByHashValue st (last hashValues) = Inr x \<and> r = Some x"
    by blast
qed

theorem C8_last_digest_wins_witness:
  "Get_Student_StudentInfo_HashValues example_state ''Fenerbahce University'' ''190908809'' =
     Inr [''2051a462ec54e1bfcb825cebe0af1e40'', ''700d6784c1d14cef3e3fe1e6ab273e38'']
   \<and> Get_StudentInfo_ByHashValue example_state ''2051a462ec54e1bfcb825cebe0af1e40'' =
     Inr (ex_student_A\<lparr>StudentInfo.HashValue := ''2051a462ec54e1bfcb825cebe0af1e40''\<rparr>)
   \<and> Get_StudentInfo_ByHashValue example_state ''700d6784c1d14cef3e3fe1e6ab273e38'' =
     Inr (ex_student_B\<lparr>StudentInfo.HashValue := ''700d6784c1d14cef3e3fe1e6ab273e38''\<rparr>)
   \<and> Get_Student_StudentInfo example_state ''Fenerbahce University'' ''190908809'' =
     Inr (Some (ex_student_B\<lparr>StudentInfo.HashValue := ''700d6784c1d14cef3e3fe1e6ab273e38''\<rparr>))
   \<and> Class ex_student_B = 2"
proof -
  have "[''2051a462ec54e1bfcb825cebe0af1e40'', ''700d6784c1d14cef3e3fe1e6ab273e38''] \<noteq> []
      \<and> Get_Student_StudentInfo example_state ''Fenerbahce University'' ''190908809'' =
          map_sum id Some (Get_StudentInfo_ByHashValue example_state
            (last [''2051a462ec54e1bfcb825cebe0af1e40'', ''700d6784c1d14cef3e3fe1e6ab273e38'']))"
    by (rule C8_last_digest_wins [THEN conjunct1, THEN mp])
       (simp add: example_HashValues example_ByHashValue)
  then have r: "Get_Student_StudentInfo example_state ''Fenerbahce University'' ''190908809'' =
     Inr (Some (ex_student_B\<lparr>StudentInfo.HashValue := ''700d6784c1d14cef3e3fe1e6ab273e38''\<rparr>))"
    by (simp add: example_ByHashValue)
  have c: "Class ex_student_B = 2"
    by (simp add: ex_student_B_def new_StudentInfo_def)
  show ?thesis
    by (intro conjI) (rule example_HashValues, rule example_ByHashValue(1),
        rule example_ByHashValue(2), rule r, rule c)
qed

subsection \<open>C10: no transcript without taken courses and course infos\<close>

text \<open>
  C10. When no meta entry of relation TakenCourse, or none of relation CourseInfo, matches
  the institution and the student, \<^verbatim>\<open>GetStudentTranscript\<close> returns an error, also when the
  student info is stored; a transcript that is returned comes from a non-empty list of
  taken courses and a non-empty list of course infos.
\<close>

theorem C10_no_courses_no_transcript:
  "(GetQueryResult st [(''owner'', hei), (''relation'', ''TakenCourse''), (''student_id'', studentID)] = Inr []
     \<longrightarrow> isl (GetStudentTranscript st hei studentID))
   \<and> (GetQueryResult st [(''owner'', hei), (''relation'', ''CourseInfo''), (''student_id'', studentID)] = Inr []
     \<longrightarrow> isl (GetStudentTranscript st hei studentID))
   \<and> (GetStudentTranscript st hei studentID = Inr transcript \<longrightarrow>
        (\<exists>infoCourses coursesTaken.
            Get_Student_CourseInfos st hei studentID = Inr infoCourses \<and> infoCourses \<noteq> []
          \<and> Get_Student_TakenCourses st hei studentID = Inr coursesTaken \<and> coursesTaken \<noteq> []))"
proof (intro conjI impI)
  assume "GetQueryResult st [(''owner'', hei), (''relation'', ''TakenCourse''), (''student_id'', studentID)] = Inr []"
  then have "Get_Student_TakenCourses st hei studentID = Inl (ReadFailed NoRecordFound)"
    by (simp add: listing_defs)
  then show "isl (GetStudentTranscript st hei studentID)"
    by (simp add: GetStudentTranscript_def split: sum.splits)
next
  assume "GetQueryResult st [(''owner'', hei), (''relation'', ''CourseInfo''), (''student_id'', studentID)] = Inr []"
  then have "Get_Student_CourseInfos st hei studentID = Inl (ReadFailed NoRecordFound)"
    by (simp add: listing_defs)
  then show "isl (GetStudentTranscript st hei studentID)"
    by (simp add: GetStudentTranscript_def split: sum.splits)
next
  assume "GetStudentTranscript st hei studentID = Inr transcript"
  then obtain infoCourses coursesTaken where
    "Get_Student_CourseInfos st hei studentID = Inr infoCourses"
    "Get_Student_TakenCourses st hei studentID = Inr coursesTaken"
    by (auto simp add: GetStudentTranscript_def split: sum.splits)
  with Student_lists_not_empty [of st hei studentID]
  show "\<exists>infoCourses coursesTaken.
            Get_Student_CourseInfos st hei studentID = Inr infoCourses \<and> infoCourses \<noteq> []
          \<and> Get_Student_TakenCourses st hei studentID = Inr coursesTaken \<and> coursesTaken \<noteq> []"
    by auto
qed

theorem C10_no_courses_no_transcript_witness:
  "Get_Student_StudentInfo student_only ''Fenerbahce University'' ''190908809'' =
     Inr (Some (ex_student_A\<lparr>StudentInfo.HashValue := ''2051a462ec54e1bfcb825cebe0af1e40''\<rparr>))
   \<and> GetQueryResult student_only
     [(''owner'', ''Fenerbahce University''), (''relation'', ''TakenCourse''), (''student_id'', ''190908809'')] = Inr []
   \<and> isl (GetStudentTranscript student_only ''Fenerbahce University'' ''190908809'')"
  using C10_no_courses_no_transcript [of student_only "''Fenerbahce University''" "''190908809''"]
  by (simp add: student_only_queries student_only_StudentInfo)


end
